theory Spec2Isabelle
  imports
    Main
    "HOL-Library.Char_ord"
    "HOL-Library.List_Lexorder"
    "HOL-Library.FSet"
    "HOL-Library.Finite_Map"
begin

section \<open>Strings, formatting and slices\<close>

text \<open>
  Go strings and byte slices are byte sequences: \<^typ>\<open>string\<close>. A Go slice can be
  \<open>nil\<close> or hold elements; \<open>len\<close> and \<open>range\<close> treat \<open>nil\<close> as empty while
  \<open>reflect.DeepEqual\<close> and \<open>== nil\<close> tell the two apart. A slice is therefore an optional
  list, \<open>None\<close> for \<open>nil\<close>, and HOL equality on it is \<open>reflect.DeepEqual\<close>.
\<close>

type_synonym 'a slice = "'a list option"

definition elems :: "'a slice \<Rightarrow> 'a list" where
  "elems s = (case s of None \<Rightarrow> [] | Some xs \<Rightarrow> xs)"

definition len :: "'a slice \<Rightarrow> nat" where
  "len s = length (elems s)"

text \<open>\<open>fmt\<close>'s \<open>%d\<close>: decimal digits, with a leading minus sign for a negative number.\<close>

definition digit_char :: "nat \<Rightarrow> char" where
  "digit_char d = ''0123456789'' ! d"

function decimal :: "nat \<Rightarrow> string" where
  "decimal n = (if n < 10 then [digit_char n] else decimal (n div 10) @ [digit_char (n mod 10)])"
  by pat_completeness auto
termination
  by (relation "measure id") auto

declare decimal.simps [simp del]

definition show_int :: "int \<Rightarrow> string" where
  "show_int i = (if i < 0 then CHR ''-'' # decimal (nat (- i)) else decimal (nat i))"

text \<open>\<open>strings.Join\<close>.\<close>

fun join :: "string list \<Rightarrow> string \<Rightarrow> string" where
  "join [] sep = []"
| "join [x] sep = x"
| "join (x # y # ys) sep = x @ sep @ join (y # ys) sep"

text \<open>\<open>strings.HasPrefix\<close> and \<open>strings.Contains\<close>.\<close>

fun has_prefix :: "string \<Rightarrow> string \<Rightarrow> bool" where
  "has_prefix s [] = True"
| "has_prefix [] (c # cs) = False"
| "has_prefix (x # xs) (c # cs) = (x = c \<and> has_prefix xs cs)"

fun contains :: "string \<Rightarrow> string \<Rightarrow> bool" where
  "contains [] sub = has_prefix [] sub"
| "contains (x # xs) sub = (has_prefix (x # xs) sub \<or> contains xs sub)"

section \<open>HostNetworkAttachment and its field validation\<close>

text \<open>
  \<open>SwitchportMode\<close> is a Go string type, so a value outside the three constants can reach
  the validator. Go's \<open>int\<close> is read as a mathematical integer: the validators only
  compare and print it.
\<close>

definition SwitchportModeAccess :: string where "SwitchportModeAccess = ''access''"
definition SwitchportModeTrunk :: string where "SwitchportModeTrunk = ''trunk''"
definition SwitchportModeHybrid :: string where "SwitchportModeHybrid = ''hybrid''"

record HostNetworkAttachmentSpec =
  Mode :: string
  NativeVLAN :: int
  AllowedVLANs :: "int slice"
  MTU :: "int option"

record HostNetworkAttachment =
  hna_Name :: string
  hna_Namespace :: string
  hna_Spec :: HostNetworkAttachmentSpec

text \<open>An \<open>error\<close> built by \<open>errors.New\<close> or \<open>fmt.Errorf\<close> is its message; \<open>None\<close> is \<open>nil\<close>.\<close>

definition validateVLANID :: "int \<Rightarrow> string option" where
  "validateVLANID vlan =
     (if vlan < 1 \<or> vlan > 4094
      then Some (''VLAN ID '' @ show_int vlan @ '' is out of range (1-4094)'')
      else None)"

fun validateVLANList :: "int list \<Rightarrow> string option" where
  "validateVLANList [] = None"
| "validateVLANList (vlan # vlans) =
     (case validateVLANID vlan of Some err \<Rightarrow> Some err | None \<Rightarrow> validateVLANList vlans)"

definition validateMode :: "HostNetworkAttachment \<Rightarrow> string option" where
  \<comment> \<open>the \<open>switch mode\<close> statement of \<open>validateSwitchportConfiguration\<close>; \<open>Some\<close> is an early return\<close>
  "validateMode attachment =
     (let mode = Mode (hna_Spec attachment);
          allowedVLANs = AllowedVLANs (hna_Spec attachment)
      in if mode = SwitchportModeAccess then
           (if len allowedVLANs > 0
            then Some ''allowedVlans cannot be specified for access mode''
            else None)
         else if mode = SwitchportModeTrunk \<or> mode = SwitchportModeHybrid then
           (case validateVLANList (elems allowedVLANs) of
              Some err \<Rightarrow> Some (''invalid allowedVlans: '' @ err)
            | None \<Rightarrow> None)
         else Some (''invalid switchport mode: '' @ mode))"

definition validateSwitchportConfiguration :: "HostNetworkAttachment \<Rightarrow> string option" where
  "validateSwitchportConfiguration attachment =
     (case validateMode attachment of
        Some err \<Rightarrow> Some err
      | None \<Rightarrow>
          (case validateVLANID (NativeVLAN (hna_Spec attachment)) of
             Some err \<Rightarrow> Some (''invalid nativeVlan: '' @ err)
           | None \<Rightarrow> None))"

definition validateMTU :: "HostNetworkAttachment \<Rightarrow> string option" where
  "validateMTU attachment =
     (case MTU (hna_Spec attachment) of
        Some mtu \<Rightarrow>
          (if mtu < 68 \<or> mtu > 9000
           then Some (''MTU '' @ show_int mtu @ '' is out of range (68-9000)'')
           else None)
      | None \<Rightarrow> None)"

definition validateAttachment :: "HostNetworkAttachment \<Rightarrow> string list" where
  "validateAttachment attachment =
     (case validateSwitchportConfiguration attachment of Some err \<Rightarrow> [err] | None \<Rightarrow> [])
     @ (case validateMTU attachment of Some err \<Rightarrow> [err] | None \<Rightarrow> [])"

section \<open>Hosts and their declared interfaces\<close>

record HostNetworkAttachmentRef =
  ref_Name :: string
  ref_Namespace :: string

text \<open>
  Modelled from the spec: the declarations of \<open>NetworkInterface\<close>, \<open>NIC\<close>,
  \<open>BareMetalHost\<close> and the method \<open>GetKey\<close> are not among the sources. A declared interface
  is identified by its name or its MAC address and carries a reference to an attachment; its
  key is the name if set, else the MAC address. The fields are the ones the sources and
  their tests read.
\<close>

record NetworkInterface =
  netif_Name :: string
  netif_MACAddress :: string
  netif_HostNetworkAttachment :: HostNetworkAttachmentRef

definition GetKey :: "NetworkInterface \<Rightarrow> string" where
  "GetKey netIf = (if netif_Name netIf \<noteq> [] then netif_Name netIf else netif_MACAddress netIf)"

record NIC =
  nic_Name :: string
  nic_MAC :: string
  nic_PXE :: bool

datatype ConditionStatus = ConditionTrue | ConditionFalse | ConditionUnknown

record Condition =
  cond_Type :: string
  cond_Status :: ConditionStatus
  cond_ObservedGeneration :: int
  cond_LastTransitionTime :: nat
  cond_Reason :: string
  cond_Message :: string

record BareMetalHost =
  bmh_Name :: string
  bmh_Namespace :: string
  bmh_NetworkInterfaces :: "NetworkInterface slice"
  bmh_HardwareDetails :: "NIC slice option"
  bmh_Conditions :: "Condition list"
  bmh_AppliedNetworkInterfaces :: "NetworkInterface slice"
  bmh_ProvisioningState :: string

section \<open>Reference guard: the attachment admission webhook\<close>

text \<open>
  The index function registered in \<open>SetupWebhookWithManager\<close>: the keys
  \<open>namespace/name\<close> of the attachments a host's interfaces refer to.
\<close>

definition indexKeyOf :: "string \<Rightarrow> string \<Rightarrow> string" where
  "indexKeyOf ns name = ns @ ''/'' @ name"

definition bmhNetworkAttachmentIndex :: "BareMetalHost \<Rightarrow> string list" where
  "bmhNetworkAttachmentIndex bmh =
     concat (map (\<lambda>iface.
        if ref_Name (netif_HostNetworkAttachment iface) \<noteq> [] then
          (let ns = ref_Namespace (netif_HostNetworkAttachment iface);
               ns = (if ns = [] then bmh_Namespace bmh else ns)
           in [indexKeyOf ns (ref_Name (netif_HostNetworkAttachment iface))])
        else [])
       (elems (bmh_NetworkInterfaces bmh)))"

text \<open>
  The webhook's client: the hosts in the store, and the error, if any, with which a
  \<open>List\<close> call fails. \<open>List\<close> with a field selector on the index and a namespace returns
  the hosts of that namespace whose index holds the key.
\<close>

record WebhookClient =
  wc_hosts :: "BareMetalHost list"
  wc_list_error :: "string option"

definition List_hosts :: "WebhookClient \<Rightarrow> string \<Rightarrow> string \<Rightarrow> string + BareMetalHost list" where
  "List_hosts c indexKey namespace =
     (case wc_list_error c of
        Some err \<Rightarrow> Inl err
      | None \<Rightarrow>
          Inr (filter (\<lambda>bmh. bmh_Namespace bmh = namespace
                          \<and> indexKey \<in> set (bmhNetworkAttachmentIndex bmh))
                 (wc_hosts c)))"

definition references_of :: "HostNetworkAttachment \<Rightarrow> BareMetalHost \<Rightarrow> string list" where
  \<comment> \<open>the inner loop of \<open>findBMHReferences\<close> for one listed host\<close>
  "references_of attachment bmh =
     concat (map (\<lambda>netIf.
        let refNS = ref_Namespace (netif_HostNetworkAttachment netIf);
            refNS = (if refNS = [] then bmh_Namespace bmh else refNS)
        in if ref_Name (netif_HostNetworkAttachment netIf) = hna_Name attachment
              \<and> refNS = hna_Namespace attachment
           then [bmh_Namespace bmh @ ''/'' @ bmh_Name bmh @ ''['' @ netif_Name netIf @ '']'']
           else [])
       (elems (bmh_NetworkInterfaces bmh)))"

definition findBMHReferences :: "WebhookClient \<Rightarrow> HostNetworkAttachment \<Rightarrow> string + string list" where
  "findBMHReferences c attachment =
     (let indexKey = indexKeyOf (hna_Namespace attachment) (hna_Name attachment)
      in case List_hosts c indexKey (hna_Namespace attachment) of
           Inl err \<Rightarrow> Inl (''failed to list BMHs using index: '' @ err)
         | Inr items \<Rightarrow> Inr (concat (map (references_of attachment) items)))"

text \<open>
  What an admission call returns besides its warnings: \<open>nil\<close> (\<open>None\<close>), an error made by
  \<open>fmt.Errorf\<close>, the aggregate of a non-empty error list (\<open>kerrors.NewAggregate\<close>), or a
  Forbidden status error (\<open>k8serrors.NewForbidden\<close>) for a resource, an object name and a
  cause.
\<close>

datatype admission_error =
    Plain string
  | Aggregate "string list"
  | Forbidden string string string

definition validateUpdate ::
  "WebhookClient \<Rightarrow> HostNetworkAttachment \<Rightarrow> HostNetworkAttachment
     \<Rightarrow> string list \<times> admission_error option" where
  "validateUpdate c oldAttachment newAttachment =
     (let errs = validateAttachment newAttachment
      in if hna_Spec oldAttachment = hna_Spec newAttachment then ([], None)
         else
           (case findBMHReferences c oldAttachment of
              Inl err \<Rightarrow>
                ([], Some (Plain (''failed to check BMH references, cannot safely allow update: '' @ err)))
            | Inr references \<Rightarrow>
                (let (warnings, errs) =
                       (if length references > 0 then
                          ([''Cannot modify attachment while in use by: '' @ join references '', ''
                              @ ''. Remove references first or create a new attachment.''],
                           errs @ [''HostNetworkAttachment spec is immutable while referenced by BMH interfaces: ''
                                     @ join references '', ''])
                        else
                          ([''NetworkAttachment modified successfully. No BMH references found.''], errs))
                 in if length errs > 0 then (warnings, Some (Aggregate errs))
                    else (warnings, None))))"


section \<open>Host reconciliation: interface validation and drift detection\<close>

text \<open>
  The condition helpers of \<open>k8s.io/apimachinery/pkg/api/meta\<close>, as that library documents
  them: \<open>FindStatusCondition\<close> returns the first condition of a type,
  \<open>SetStatusCondition\<close> appends a condition of a new type (stamping its transition time
  when unset, \<open>0\<close> here) or updates the existing one in place, and
  \<open>RemoveStatusCondition\<close> drops every condition of the type. The clock is the parameter
  \<open>now\<close>.
\<close>

definition ConditionNetworkInterfacesValid :: string where
  "ConditionNetworkInterfacesValid = ''NetworkInterfacesValid''"

fun FindStatusCondition :: "Condition list \<Rightarrow> string \<Rightarrow> Condition option" where
  "FindStatusCondition [] conditionType = None"
| "FindStatusCondition (c # cs) conditionType =
     (if cond_Type c = conditionType then Some c else FindStatusCondition cs conditionType)"

definition updateCondition :: "nat \<Rightarrow> Condition \<Rightarrow> Condition \<Rightarrow> Condition" where
  \<comment> \<open>the field-by-field update \<open>SetStatusCondition\<close> makes to the existing condition\<close>
  "updateCondition now existing newCondition =
     (let existing =
            (if cond_Status existing \<noteq> cond_Status newCondition
             then existing\<lparr>cond_Status := cond_Status newCondition,
                           cond_LastTransitionTime :=
                             (if cond_LastTransitionTime newCondition \<noteq> 0
                              then cond_LastTransitionTime newCondition else now)\<rparr>
             else existing)
      in existing\<lparr>cond_Reason := cond_Reason newCondition,
                   cond_Message := cond_Message newCondition,
                   cond_ObservedGeneration := cond_ObservedGeneration newCondition\<rparr>)"

fun SetStatusCondition :: "nat \<Rightarrow> Condition list \<Rightarrow> Condition \<Rightarrow> Condition list" where
  "SetStatusCondition now [] newCondition =
     [if cond_LastTransitionTime newCondition = 0
      then newCondition\<lparr>cond_LastTransitionTime := now\<rparr> else newCondition]"
| "SetStatusCondition now (c # cs) newCondition =
     (if cond_Type c = cond_Type newCondition
      then updateCondition now c newCondition # cs
      else c # SetStatusCondition now cs newCondition)"

definition RemoveStatusCondition :: "Condition list \<Rightarrow> string \<Rightarrow> Condition list" where
  "RemoveStatusCondition conditions conditionType =
     filter (\<lambda>condition. cond_Type condition \<noteq> conditionType) conditions"

definition networkInterfaceValidationPassed :: "BareMetalHost \<Rightarrow> bool" where
  "networkInterfaceValidationPassed host =
     (case FindStatusCondition (bmh_Conditions host) ConditionNetworkInterfacesValid of
        None \<Rightarrow> False
      | Some cond \<Rightarrow> cond_Status cond = ConditionTrue)"

definition newValidationCondition :: "ConditionStatus \<Rightarrow> string \<Rightarrow> string \<Rightarrow> Condition" where
  \<comment> \<open>the \<open>metav1.Condition\<close> literal of \<open>setNetworkInterfaceValidation\<close>\<close>
  "newValidationCondition status reason message =
     \<lparr>cond_Type = ConditionNetworkInterfacesValid, cond_Status = status,
      cond_ObservedGeneration = 0, cond_LastTransitionTime = 0,
      cond_Reason = reason, cond_Message = message\<rparr>"

definition setNetworkInterfaceValidation ::
  "nat \<Rightarrow> BareMetalHost \<Rightarrow> ConditionStatus \<Rightarrow> string \<Rightarrow> string \<Rightarrow> bool \<times> BareMetalHost" where
  "setNetworkInterfaceValidation now host status reason message =
     (let existing = FindStatusCondition (bmh_Conditions host) ConditionNetworkInterfacesValid
      in if existing \<noteq> None \<and> cond_Status (the existing) = status
              \<and> cond_Reason (the existing) = reason
         then (False, host)
         else (True, host\<lparr>bmh_Conditions :=
                 SetStatusCondition now (bmh_Conditions host)
                   (newValidationCondition status reason message)\<rparr>))"

definition clearNetworkInterfaceValidation :: "BareMetalHost \<Rightarrow> bool \<times> BareMetalHost" where
  "clearNetworkInterfaceValidation host =
     (if FindStatusCondition (bmh_Conditions host) ConditionNetworkInterfacesValid \<noteq> None
      then (True, host\<lparr>bmh_Conditions :=
              RemoveStatusCondition (bmh_Conditions host) ConditionNetworkInterfacesValid\<rparr>)
      else (False, host))"

definition isHardwareDiscoveryComplete :: "BareMetalHost \<Rightarrow> bool" where
  "isHardwareDiscoveryComplete host = (bmh_HardwareDetails host \<noteq> None)"

definition getAvailableNICNames :: "NIC list \<Rightarrow> string list" where
  "getAvailableNICNames nics = sort (filter (\<lambda>name. name \<noteq> []) (map nic_Name nics))"

definition availableNICs :: "NIC list \<Rightarrow> string list" where
  \<comment> \<open>the keys set to true in the map \<open>availableNICs\<close> of \<open>performNetworkInterfaceValidation\<close>\<close>
  "availableNICs nics =
     concat (map (\<lambda>nic. (if nic_Name nic \<noteq> [] then [nic_Name nic] else [])
                          @ (if nic_MAC nic \<noteq> [] then [nic_MAC nic] else [])) nics)"

definition performNetworkInterfaceValidation :: "nat \<Rightarrow> BareMetalHost \<Rightarrow> bool \<times> BareMetalHost" where
  "performNetworkInterfaceValidation now host =
     (let nics = (case bmh_HardwareDetails host of None \<Rightarrow> [] | Some d \<Rightarrow> elems d);
          keys = map GetKey (elems (bmh_NetworkInterfaces host));
          invalidInterfaces = filter (\<lambda>key. key \<notin> set (availableNICs nics)) keys
      in if length invalidInterfaces > 0 then
           (let availableNames = getAvailableNICNames nics;
                message =
                  (if length availableNames = 0
                   then ''Invalid interface names: '' @ join invalidInterfaces '', ''
                          @ ''. No network interfaces discovered on this host.''
                   else ''Invalid interface names: '' @ join invalidInterfaces '', ''
                          @ ''. Available interfaces: '' @ join availableNames '', '')
            in setNetworkInterfaceValidation now host ConditionFalse ''InvalidInterfaceNames'' message)
         else setNetworkInterfaceValidation now host ConditionTrue ''AllInterfacesValid''
                ''All network interfaces are valid'')"

definition validateNetworkInterfaces :: "nat \<Rightarrow> BareMetalHost \<Rightarrow> bool \<times> BareMetalHost" where
  "validateNetworkInterfaces now host =
     (if len (bmh_NetworkInterfaces host) = 0 then clearNetworkInterfaceValidation host
      else if \<not> isHardwareDiscoveryComplete host then clearNetworkInterfaceValidation host
      else performNetworkInterfaceValidation now host)"

definition switchPortConfigurationNeedsUpdate :: "BareMetalHost \<Rightarrow> bool \<times> string" where
  "switchPortConfigurationNeedsUpdate host =
     (if len (bmh_NetworkInterfaces host) = 0 then
        (if len (bmh_AppliedNetworkInterfaces host) > 0
         then (True, ''NetworkInterfacesRemoved'')
         else (False, []))
      else if \<not> networkInterfaceValidationPassed host then (False, [])
      else if bmh_AppliedNetworkInterfaces host = None then (True, ''InitialConfiguration'')
      else if bmh_NetworkInterfaces host \<noteq> bmh_AppliedNetworkInterfaces host
        then (True, ''NetworkInterfaceSpecChanged'')
      else (False, []))"

section \<open>Attachment resolution\<close>

record SwitchPortConfig =
  spc_Mode :: string
  spc_NativeVLAN :: int
  spc_AllowedVLANs :: "int slice"
  spc_MTU :: "int option"

text \<open>
  The reconciler's client: the stored attachments by namespace and name, and the failure, if
  any, that a \<open>Get\<close> of a key meets for a reason other than absence.
\<close>

datatype get_error = NotFound | GetFailed string

record ReconcilerClient =
  rc_attachments :: "string \<times> string \<Rightarrow> HostNetworkAttachment option"
  rc_get_failure :: "string \<times> string \<Rightarrow> string option"

definition Get_attachment ::
  "ReconcilerClient \<Rightarrow> string \<Rightarrow> string \<Rightarrow> get_error + HostNetworkAttachment" where
  "Get_attachment c namespace name =
     (case rc_get_failure c (namespace, name) of
        Some err \<Rightarrow> Inl (GetFailed err)
      | None \<Rightarrow>
          (case rc_attachments c (namespace, name) of
             None \<Rightarrow> Inl NotFound
           | Some attachment \<Rightarrow> Inr attachment))"

definition attachmentNS :: "BareMetalHost \<Rightarrow> NetworkInterface \<Rightarrow> string" where
  "attachmentNS host netIf =
     (if ref_Namespace (netif_HostNetworkAttachment netIf) = [] then bmh_Namespace host
      else ref_Namespace (netif_HostNetworkAttachment netIf))"

definition configOf :: "HostNetworkAttachment \<Rightarrow> SwitchPortConfig" where
  \<comment> \<open>the \<open>provisioner.SwitchPortConfig\<close> literal of \<open>resolveSwitchPortConfigs\<close>\<close>
  "configOf attachment =
     \<lparr>spc_Mode = Mode (hna_Spec attachment),
      spc_NativeVLAN = NativeVLAN (hna_Spec attachment),
      spc_AllowedVLANs = AllowedVLANs (hna_Spec attachment),
      spc_MTU = MTU (hna_Spec attachment)\<rparr>"

definition fetchAttachment ::
  "ReconcilerClient \<Rightarrow> BareMetalHost \<Rightarrow> NetworkInterface
     \<Rightarrow> get_error + HostNetworkAttachment" where
  \<comment> \<open>the \<open>r.Get\<close> call made for one declared interface\<close>
  "fetchAttachment c host netIf =
     Get_attachment c (attachmentNS host netIf) (ref_Name (netif_HostNetworkAttachment netIf))"

fun resolveLoop ::
  "ReconcilerClient \<Rightarrow> BareMetalHost \<Rightarrow> NetworkInterface list
     \<Rightarrow> (string, SwitchPortConfig) fmap \<Rightarrow> string + (string, SwitchPortConfig) fmap" where
  "resolveLoop c host [] configs = Inr configs"
| "resolveLoop c host (netIf # rest) configs =
     (case fetchAttachment c host netIf of
        Inl NotFound \<Rightarrow> resolveLoop c host rest configs
      | Inl (GetFailed err) \<Rightarrow>
          Inl (''failed to get network attachment '' @ attachmentNS host netIf @ ''/''
                 @ ref_Name (netif_HostNetworkAttachment netIf) @ '': '' @ err)
      | Inr attachment \<Rightarrow>
          resolveLoop c host rest (fmupd (GetKey netIf) (configOf attachment) configs))"

definition resolveSwitchPortConfigs ::
  "ReconcilerClient \<Rightarrow> BareMetalHost \<Rightarrow> string + (string, SwitchPortConfig) fmap" where
  "resolveSwitchPortConfigs c host =
     resolveLoop c host (elems (bmh_NetworkInterfaces host)) fmempty"

section \<open>Switch configuration generation\<close>

definition nl :: string where
  \<comment> \<open>the line feed written by \<open>\n\<close> and \<open>Fprintln\<close>\<close>
  "nl = [CHR 0x0A]"

definition SwitchCredentialTypePassword :: string where
  "SwitchCredentialTypePassword = ''password''"

definition SwitchCredentialTypePublicKey :: string where
  "SwitchCredentialTypePublicKey = ''publickey''"

record SwitchCredentials =
  cred_Type :: string
  cred_SecretName :: string

record BareMetalSwitch =
  sw_Name :: string
  sw_Namespace :: string
  sw_Address :: string
  sw_MACAddress :: string
  sw_Driver :: string
  sw_DeviceType :: string
  sw_Credentials :: SwitchCredentials
  sw_Port :: "int option"
  sw_DisableCertificateVerification :: "bool option"

text \<open>
  A Go map is finite and unordered: a finite map, optional where the code tells a \<open>nil\<close> map
  from an empty one. Reading a \<open>nil\<close> map finds no key.
\<close>

type_synonym secret_data = "(string, string) fmap option"

definition entries :: "secret_data \<Rightarrow> (string, string) fmap" where
  "entries d = (case d of None \<Rightarrow> fmempty | Some m \<Rightarrow> m)"

record Secret =
  secret_Data :: secret_data
  secret_ResourceVersion :: nat

text \<open>
  The switch reconciler's client: the stored switches and secrets, the failures injected into
  \<open>List\<close>, \<open>Get\<close> and \<open>Update\<close>, and the log of the \<open>Update\<close> calls issued. A successful
  \<open>Update\<close> stores the object under a new resource version. The text of the client's
  not-found error is shortened to \<open>not found\<close>.
\<close>

record SwitchClient =
  sc_switches :: "BareMetalSwitch list"
  sc_secrets :: "string \<times> string \<Rightarrow> Secret option"
  sc_list_failure :: "string option"
  sc_get_failure :: "string \<times> string \<Rightarrow> string option"
  sc_update_failure :: "string \<times> string \<Rightarrow> string option"
  sc_updates :: "(string \<times> string) list"

definition List_switches :: "SwitchClient \<Rightarrow> string \<Rightarrow> string + BareMetalSwitch list" where
  "List_switches c namespace =
     (case sc_list_failure c of
        Some err \<Rightarrow> Inl err
      | None \<Rightarrow> Inr (filter (\<lambda>sw. sw_Namespace sw = namespace) (sc_switches c)))"

definition Get_secret :: "SwitchClient \<Rightarrow> string \<Rightarrow> string \<Rightarrow> string + Secret" where
  "Get_secret c namespace name =
     (case sc_get_failure c (namespace, name) of
        Some err \<Rightarrow> Inl err
      | None \<Rightarrow>
          (case sc_secrets c (namespace, name) of
             None \<Rightarrow> Inl ''not found''
           | Some secret \<Rightarrow> Inr secret))"

definition Update_secret ::
  "SwitchClient \<Rightarrow> string \<Rightarrow> string \<Rightarrow> Secret \<Rightarrow> string option \<times> SwitchClient" where
  "Update_secret c namespace name secret =
     (let c = c\<lparr>sc_updates := sc_updates c @ [(namespace, name)]\<rparr>
      in case sc_update_failure c (namespace, name) of
           Some err \<Rightarrow> (Some err, c)
         | None \<Rightarrow>
             (None, c\<lparr>sc_secrets := (sc_secrets c)((namespace, name) \<mapsto>
                      secret\<lparr>secret_ResourceVersion := Suc (secret_ResourceVersion secret)\<rparr>)\<rparr>))"

definition switchConfigKey :: string where
  "switchConfigKey = ''switch-configs.conf''"

definition FormatBool :: "bool \<Rightarrow> string" where
  "FormatBool b = (if b then ''true'' else ''false'')"

definition keyFileNameOf :: "string \<Rightarrow> string" where
  \<comment> \<open>\<open>strings.ReplaceAll(mac, ":", "-") + ".key"\<close>\<close>
  "keyFileNameOf mac = map (\<lambda>ch. if ch = CHR '':'' then CHR ''-'' else ch) mac @ ''.key''"

text \<open>
  \<open>writeSwitchEntry\<close> fills a buffer line by line and stores it under the switch's name. The
  standard library's \<open>filepath.Join\<close> is the parameter \<open>pathJoin\<close>. The result is the
  error, or the two maps after the call; every error is returned before either map is
  written.
\<close>

definition writeSwitchEntry ::
  "(string \<Rightarrow> string \<Rightarrow> string) \<Rightarrow> SwitchClient \<Rightarrow> BareMetalSwitch \<Rightarrow> string
     \<Rightarrow> (string, string) fmap \<Rightarrow> (string, string) fmap
     \<Rightarrow> string + (string, string) fmap \<times> (string, string) fmap" where
  "writeSwitchEntry pathJoin c sw credentialsPath configEntries keyFiles =
     (let buf = ''[switch:'' @ sw_Name sw @ '']'' @ nl;
          buf = buf @ ''address='' @ sw_Address sw @ nl;
          buf = buf @ ''mac_address='' @ sw_MACAddress sw @ nl;
          buf = (case sw_Port sw of
                   Some port \<Rightarrow> buf @ ''port='' @ show_int port @ nl
                 | None \<Rightarrow> buf);
          driverType = (if sw_Driver sw = [] then ''generic-switch'' else sw_Driver sw);
          buf = buf @ ''driver_type='' @ driverType @ nl;
          buf = buf @ ''device_type='' @ sw_DeviceType sw @ nl;
          buf = (case sw_DisableCertificateVerification sw of
                   Some b \<Rightarrow> buf @ ''insecure='' @ FormatBool b @ nl
                 | None \<Rightarrow> buf);
          secretName = cred_SecretName (sw_Credentials sw)
      in case Get_secret c (sw_Namespace sw) secretName of
           Inl err \<Rightarrow>
             Inl (''failed to get credentials secret '' @ sw_Namespace sw @ ''/'' @ secretName
                    @ '': '' @ err)
         | Inr secret \<Rightarrow>
             (case fmlookup (entries (secret_Data secret)) ''username'' of
                None \<Rightarrow> Inl (''credentials secret '' @ secretName @ '' missing 'username' key'')
              | Some username \<Rightarrow>
                  (let buf = buf @ ''username='' @ username @ nl
                   in if cred_Type (sw_Credentials sw) = SwitchCredentialTypePublicKey then
                        (case fmlookup (entries (secret_Data secret)) ''ssh-privatekey'' of
                           None \<Rightarrow>
                             Inl (''credentials secret '' @ secretName
                                    @ '' missing 'ssh-privatekey' key for publickey auth'')
                         | Some privateKey \<Rightarrow>
                             (let keyFileName = keyFileNameOf (sw_MACAddress sw);
                                  keyFiles = fmupd keyFileName privateKey keyFiles;
                                  buf = buf @ ''key_file='' @ pathJoin credentialsPath keyFileName @ nl;
                                  buf = buf @ nl
                              in Inr (fmupd (sw_Name sw) buf configEntries, keyFiles)))
                      else
                        (case fmlookup (entries (secret_Data secret)) ''password'' of
                           None \<Rightarrow>
                             Inl (''credentials secret '' @ secretName @ '' missing 'password' key'')
                         | Some password \<Rightarrow>
                             (let buf = buf @ ''password='' @ password @ nl;
                                  buf = buf @ nl
                              in Inr (fmupd (sw_Name sw) buf configEntries, keyFiles))))))"

fun generateLoop ::
  "(string \<Rightarrow> string \<Rightarrow> string) \<Rightarrow> SwitchClient \<Rightarrow> string \<Rightarrow> BareMetalSwitch list
     \<Rightarrow> (string, string) fmap \<Rightarrow> (string, string) fmap
     \<Rightarrow> string + (string, string) fmap \<times> (string, string) fmap" where
  "generateLoop pathJoin c credentialsPath [] configEntries keyFiles = Inr (configEntries, keyFiles)"
| "generateLoop pathJoin c credentialsPath (sw # items) configEntries keyFiles =
     (case writeSwitchEntry pathJoin c sw credentialsPath configEntries keyFiles of
        Inl err \<Rightarrow> Inl (''failed to generate config for switch '' @ sw_Name sw @ '': '' @ err)
      | Inr (configEntries, keyFiles) \<Rightarrow>
          generateLoop pathJoin c credentialsPath items configEntries keyFiles)"

definition generateSwitchConfig ::
  "(string \<Rightarrow> string \<Rightarrow> string) \<Rightarrow> SwitchClient \<Rightarrow> string \<Rightarrow> string
     \<Rightarrow> string + (string, string) fmap \<times> (string, string) fmap" where
  "generateSwitchConfig pathJoin c namespace credentialsPath =
     (case List_switches c namespace of
        Inl err \<Rightarrow> Inl (''failed to list BareMetalSwitch resources: '' @ err)
      | Inr items \<Rightarrow> generateLoop pathJoin c credentialsPath items fmempty fmempty)"

definition secretDataEqual :: "secret_data \<Rightarrow> secret_data \<Rightarrow> bool" where
  "secretDataEqual a b =
     (if fcard (fmdom (entries a)) \<noteq> fcard (fmdom (entries b)) then False
      else fmpred (\<lambda>k v. case fmlookup (entries b) k of None \<Rightarrow> False | Some bv \<Rightarrow> v = bv)
             (entries a))"

definition updateSecretData ::
  "SwitchClient \<Rightarrow> string \<Rightarrow> string \<Rightarrow> secret_data \<Rightarrow> string option \<times> SwitchClient" where
  "updateSecretData c namespace secretName newData =
     (case Get_secret c namespace secretName of
        Inl err \<Rightarrow> (Some (''failed to get secret '' @ secretName @ '': '' @ err), c)
      | Inr secret \<Rightarrow>
          if secretDataEqual (secret_Data secret) newData then (None, c)
          else
            (case Update_secret c namespace secretName (secret\<lparr>secret_Data := newData\<rparr>) of
               (Some err, c') \<Rightarrow>
                 (Some (''failed to update secret '' @ secretName @ '': '' @ err), c')
             | (None, c') \<Rightarrow> (None, c')))"

definition banner :: string where
  "banner = ''# This file is managed by the Baremetal Operator'' @ nl @ nl"

definition assembleConfig :: "(string, string) fmap \<Rightarrow> string" where
  \<comment> \<open>the sorted concatenation \<open>configBuf\<close> of \<open>updateSwitchConfigSecret\<close>\<close>
  "assembleConfig configEntries =
     (let switchNames = sorted_list_of_fset (fmdom configEntries)
      in banner @ concat (map (\<lambda>name. case fmlookup configEntries name of
                                          None \<Rightarrow> [] | Some section \<Rightarrow> section) switchNames))"

definition updateSwitchConfigSecret ::
  "(string \<Rightarrow> string \<Rightarrow> string) \<Rightarrow> SwitchClient \<Rightarrow> string \<Rightarrow> string \<Rightarrow> string \<Rightarrow> string
     \<Rightarrow> string option \<times> SwitchClient" where
  "updateSwitchConfigSecret pathJoin c namespace configSecretName credentialSecretName credentialPath =
     (case generateSwitchConfig pathJoin c namespace credentialPath of
        Inl err \<Rightarrow> (Some err, c)
      | Inr (configEntries, keyFiles) \<Rightarrow>
          (case updateSecretData c namespace configSecretName
                  (Some (fmupd switchConfigKey (assembleConfig configEntries) fmempty)) of
             (Some err, c') \<Rightarrow> (Some (''failed to update switch configs secret: '' @ err), c')
           | (None, c') \<Rightarrow>
               (case updateSecretData c' namespace credentialSecretName (Some keyFiles) of
                  (Some err, c'') \<Rightarrow>
                    (Some (''failed to update switch credentials secret: '' @ err), c'')
                | (None, c'') \<Rightarrow> (None, c''))))"

section \<open>Port reconciliation\<close>

text \<open>
  \<open>strings.ToLower\<close> and \<open>strings.EqualFold\<close> on ASCII text, which is what MAC addresses and
  interface names are.
\<close>

definition toLowerChar :: "char \<Rightarrow> char" where
  "toLowerChar ch =
     (let n = (of_char ch :: nat) in if 65 \<le> n \<and> n \<le> 90 then char_of (n + 32) else ch)"

definition ToLower :: "string \<Rightarrow> string" where
  "ToLower s = map toLowerChar s"

definition EqualFold :: "string \<Rightarrow> string \<Rightarrow> bool" where
  "EqualFold s t = (ToLower s = ToLower t)"

text \<open>
  Modelled from the spec: \<open>deduplicateNICsByMAC\<close> is not among the sources. It compares MAC
  addresses without regard to case, drops the entries with an empty MAC address and keeps the
  first entry of each address, in the order of the input.
\<close>

fun dedupLoop :: "string list \<Rightarrow> NIC list \<Rightarrow> NIC list" where
  "dedupLoop seen [] = []"
| "dedupLoop seen (nic # nics) =
     (if nic_MAC nic = [] \<or> ToLower (nic_MAC nic) \<in> set seen then dedupLoop seen nics
      else nic # dedupLoop (ToLower (nic_MAC nic) # seen) nics)"

definition deduplicateNICsByMAC :: "NIC list \<Rightarrow> NIC list" where
  "deduplicateNICsByMAC nics = dedupLoop [] nics"

record Port =
  port_UUID :: string
  port_Address :: string

text \<open>
  The provisioner's fields that \<open>ensurePorts\<close> reads: the boot MAC address, the switch-port
  configurations by key, and the hardware details \<open>getStoredHardwareDetails\<close> returns.
\<close>

record ironicProvisioner =
  p_bootMACAddress :: string
  p_switchPortConfigs :: "string \<Rightarrow> SwitchPortConfig option"
  p_storedHardwareDetails :: "NIC slice option"

text \<open>
  The provisioner's methods that are not among the sources are parameters: they act on the
  state \<open>'st\<close> of the hardware-management service and return an error or \<open>nil\<close> with the new
  state. \<open>op_ensurePort\<close> takes the node, the NIC, the PXE flag, the switch-port
  configuration and the existing port, if any.
\<close>

record 'st ironicOps =
  op_deduplicateNICsByMAC :: "NIC list \<Rightarrow> NIC list"
  op_listNodePorts :: "'st \<Rightarrow> string \<Rightarrow> string + Port list"
  op_ensurePort ::
    "'st \<Rightarrow> string \<Rightarrow> NIC \<Rightarrow> bool \<Rightarrow> SwitchPortConfig option \<Rightarrow> Port option
       \<Rightarrow> string option \<times> 'st"
  op_nodeHasAssignedPort :: "'st \<Rightarrow> string \<Rightarrow> string + bool"
  op_isAddressAllocatedToPort :: "'st \<Rightarrow> string \<Rightarrow> string + bool"
  op_createPXEEnabledNodePort ::
    "'st \<Rightarrow> string \<Rightarrow> string \<Rightarrow> SwitchPortConfig option \<Rightarrow> string option \<times> 'st"

definition ensurePxePort ::
  "'st ironicOps \<Rightarrow> ironicProvisioner \<Rightarrow> 'st \<Rightarrow> string \<Rightarrow> string option \<times> 'st" where
  "ensurePxePort ops p st nodeUUID =
     (case op_nodeHasAssignedPort ops st nodeUUID of
        Inl err \<Rightarrow> (Some err, st)
      | Inr nodeHasAssignedPort \<Rightarrow>
          if \<not> nodeHasAssignedPort then
            (case op_isAddressAllocatedToPort ops st (p_bootMACAddress p) of
               Inl err \<Rightarrow> (Some err, st)
             | Inr addressIsAllocatedToPort \<Rightarrow>
                 if \<not> addressIsAllocatedToPort then
                   op_createPXEEnabledNodePort ops st nodeUUID (p_bootMACAddress p)
                     (p_switchPortConfigs p (p_bootMACAddress p))
                 else (None, st))
          else (None, st))"

definition portsByMAC :: "Port list \<Rightarrow> string \<Rightarrow> Port option" where
  \<comment> \<open>the lookup map built from the listed ports; a later port of a MAC replaces an earlier one\<close>
  "portsByMAC existingPorts =
     foldl (\<lambda>m port. m(ToLower (port_Address port) \<mapsto> port)) Map.empty existingPorts"

definition switchConfigFor :: "ironicProvisioner \<Rightarrow> NIC \<Rightarrow> SwitchPortConfig option" where
  \<comment> \<open>by interface name first, then by MAC address\<close>
  "switchConfigFor p nic =
     (let switchConfig =
            (if nic_Name nic \<noteq> [] then p_switchPortConfigs p (ToLower (nic_Name nic)) else None)
      in if switchConfig = None \<and> nic_MAC nic \<noteq> []
         then p_switchPortConfigs p (ToLower (nic_MAC nic))
         else switchConfig)"

definition failureText :: "NIC \<Rightarrow> string \<Rightarrow> string" where
  \<comment> \<open>\<open>fmt.Sprintf("%s(%s): %v", nic.Name, nic.MAC, err)\<close>\<close>
  "failureText nic err = nic_Name nic @ ''('' @ nic_MAC nic @ ''): '' @ err"

text \<open>
  The loop over the unique NICs, with its two accumulators \<open>failures\<close> and \<open>successCount\<close>
  and the state of the service.
\<close>

fun ensureLoop ::
  "'st ironicOps \<Rightarrow> ironicProvisioner \<Rightarrow> string \<Rightarrow> (string \<Rightarrow> Port option) \<Rightarrow> NIC list
     \<Rightarrow> 'st \<Rightarrow> string list \<Rightarrow> nat \<Rightarrow> string list \<times> nat \<times> 'st" where
  "ensureLoop ops p nodeUUID byMAC [] st failures successCount = (failures, successCount, st)"
| "ensureLoop ops p nodeUUID byMAC (nic # nics) st failures successCount =
     (if nic_MAC nic = [] then ensureLoop ops p nodeUUID byMAC nics st failures successCount
      else
        (let isPXEPort = (nic_PXE nic \<or> EqualFold (nic_MAC nic) (p_bootMACAddress p));
             switchConfig = switchConfigFor p nic;
             existingPort = byMAC (ToLower (nic_MAC nic))
         in case op_ensurePort ops st nodeUUID nic isPXEPort switchConfig existingPort of
              (Some err, st') \<Rightarrow>
                ensureLoop ops p nodeUUID byMAC nics st' (failures @ [failureText nic err])
                  successCount
            | (None, st') \<Rightarrow>
                ensureLoop ops p nodeUUID byMAC nics st' failures (Suc successCount)))"

definition ensurePorts ::
  "'st ironicOps \<Rightarrow> ironicProvisioner \<Rightarrow> 'st \<Rightarrow> string \<Rightarrow> string option \<times> 'st" where
  "ensurePorts ops p st nodeUUID =
     (case p_storedHardwareDetails p of
        None \<Rightarrow>
          (if p_bootMACAddress p \<noteq> [] then ensurePxePort ops p st nodeUUID else (None, st))
      | Some nics \<Rightarrow>
          (let uniqueNICs = op_deduplicateNICsByMAC ops (elems nics)
           in case op_listNodePorts ops st nodeUUID of
                Inl err \<Rightarrow> (Some (''failed to list existing ports: '' @ err), st)
              | Inr existingPorts \<Rightarrow>
                  (case ensureLoop ops p nodeUUID (portsByMAC existingPorts) uniqueNICs st [] 0 of
                     (failures, successCount, st') \<Rightarrow>
                       if length failures > 0 then
                         (Some (''failed to ensure '' @ show_int (int (length failures)) @ ''/''
                                  @ show_int (int (length uniqueNICs)) @ '' ports: ''
                                  @ join (take 3 failures) ''; ''),
                          st')
                       else (None, st'))))"

text \<open>
  The reading of the specification the loop is compared with: the per-NIC operation is run
  once for every unique NIC that has a MAC address, in order, whatever the earlier ones
  returned; the outcome of each is recorded beside its NIC.
\<close>

fun ensureEveryNIC_spec ::
  "'st ironicOps \<Rightarrow> ironicProvisioner \<Rightarrow> string \<Rightarrow> (string \<Rightarrow> Port option) \<Rightarrow> NIC list
     \<Rightarrow> 'st \<Rightarrow> (NIC \<times> string option) list \<times> 'st" where
  "ensureEveryNIC_spec ops p nodeUUID byMAC [] st = ([], st)"
| "ensureEveryNIC_spec ops p nodeUUID byMAC (nic # nics) st =
     (if nic_MAC nic = [] then ensureEveryNIC_spec ops p nodeUUID byMAC nics st
      else
        (case op_ensurePort ops st nodeUUID nic
                (nic_PXE nic \<or> EqualFold (nic_MAC nic) (p_bootMACAddress p))
                (switchConfigFor p nic) (byMAC (ToLower (nic_MAC nic))) of
           (outcome, st') \<Rightarrow>
             (case ensureEveryNIC_spec ops p nodeUUID byMAC nics st' of
                (outcomes, st'') \<Rightarrow> ((nic, outcome) # outcomes, st''))))"

definition failuresOf :: "(NIC \<times> string option) list \<Rightarrow> string list" where
  "failuresOf outcomes =
     concat (map (\<lambda>(nic, outcome). case outcome of None \<Rightarrow> [] | Some err \<Rightarrow> [failureText nic err])
               outcomes)"

definition successesOf :: "(NIC \<times> string option) list \<Rightarrow> nat" where
  "successesOf outcomes = length (filter (\<lambda>(nic, outcome). outcome = None) outcomes)"

section \<open>The verdict of interface validation\<close>

text \<open>
  The status, reason and message that \<open>performNetworkInterfaceValidation\<close> hands to
  \<open>setNetworkInterfaceValidation\<close>, as a function of the host.
\<close>

definition validationVerdict :: "BareMetalHost \<Rightarrow> ConditionStatus \<times> string \<times> string" where
  "validationVerdict host =
     (let nics = (case bmh_HardwareDetails host of None \<Rightarrow> [] | Some d \<Rightarrow> elems d);
          keys = map GetKey (elems (bmh_NetworkInterfaces host));
          invalidInterfaces = filter (\<lambda>key. key \<notin> set (availableNICs nics)) keys
      in if length invalidInterfaces > 0 then
           (let availableNames = getAvailableNICNames nics;
                message =
                  (if length availableNames = 0
                   then ''Invalid interface names: '' @ join invalidInterfaces '', ''
                          @ ''. No network interfaces discovered on this host.''
                   else ''Invalid interface names: '' @ join invalidInterfaces '', ''
                          @ ''. Available interfaces: '' @ join availableNames '', '')
            in (ConditionFalse, ''InvalidInterfaceNames'', message))
         else (ConditionTrue, ''AllInterfacesValid'', ''All network interfaces are valid''))"

section \<open>References from hosts to attachments\<close>



section \<open>The section of one switch\<close>

text \<open>
  The bytes \<open>writeSwitchEntry\<close> stores for a switch, read off a call on empty maps; empty
  when the call fails.
\<close>

definition switchSection ::
  "(string \<Rightarrow> string \<Rightarrow> string) \<Rightarrow> SwitchClient \<Rightarrow> BareMetalSwitch \<Rightarrow> string \<Rightarrow> string" where
  "switchSection pathJoin c sw credentialsPath =
     (case writeSwitchEntry pathJoin c sw credentialsPath fmempty fmempty of
        Inl err \<Rightarrow> []
      | Inr (configEntries, keyFiles) \<Rightarrow>
          (case fmlookup configEntries (sw_Name sw) of None \<Rightarrow> [] | Some section \<Rightarrow> section))"

definition storeSection ::
  "(string \<Rightarrow> string \<Rightarrow> string) \<Rightarrow> SwitchClient \<Rightarrow> string
     \<Rightarrow> (string, string) fmap \<Rightarrow> BareMetalSwitch \<Rightarrow> (string, string) fmap" where
  \<comment> \<open>the effect of a successful \<open>writeSwitchEntry\<close> on the map of entries\<close>
  "storeSection pathJoin c credentialsPath m sw =
     fmupd (sw_Name sw) (switchSection pathJoin c sw credentialsPath) m"

section \<open>Example objects\<close>

text \<open>The objects of the repository's tests, used to run the definitions.\<close>

definition exampleInterface :: NetworkInterface where
  "exampleInterface =
     \<lparr>netif_Name = ''eth0'', netif_MACAddress = [],
      netif_HostNetworkAttachment = \<lparr>ref_Name = ''test-attachment'', ref_Namespace = []\<rparr>\<rparr>"

definition exampleHost :: BareMetalHost where
  "exampleHost =
     \<lparr>bmh_Name = ''host-with-ref'', bmh_Namespace = ''test-ns'',
      bmh_NetworkInterfaces = Some [exampleInterface], bmh_HardwareDetails = None,
      bmh_Conditions = [], bmh_AppliedNetworkInterfaces = None,
      bmh_ProvisioningState = ''available''\<rparr>"

definition validCondition :: Condition where
  "validCondition =
     \<lparr>cond_Type = ''NetworkInterfacesValid'', cond_Status = ConditionTrue,
      cond_ObservedGeneration = 0, cond_LastTransitionTime = 7,
      cond_Reason = ''AllInterfacesValid'', cond_Message = ''All network interfaces are valid''\<rparr>"

definition switch1 :: BareMetalSwitch where
  "switch1 =
     \<lparr>sw_Name = ''switch1'', sw_Namespace = ''test-ns'', sw_Address = ''192.168.1.1'',
      sw_MACAddress = ''00:00:5e:00:53:01'', sw_Driver = [], sw_DeviceType = ''cisco_ios'',
      sw_Credentials = \<lparr>cred_Type = ''password'', cred_SecretName = ''switch1-creds''\<rparr>,
      sw_Port = None, sw_DisableCertificateVerification = None\<rparr>"

definition switch1Secret :: Secret where
  "switch1Secret =
     \<lparr>secret_Data = Some (fmupd ''username'' ''admin'' (fmupd ''password'' ''secret123'' fmempty)),
      secret_ResourceVersion = 1\<rparr>"

definition switch1Client :: SwitchClient where
  "switch1Client =
     \<lparr>sc_switches = [switch1],
      sc_secrets = [(''test-ns'', ''switch1-creds'') \<mapsto> switch1Secret],
      sc_list_failure = None, sc_get_failure = (\<lambda>key. None),
      sc_update_failure = (\<lambda>key. None), sc_updates = []\<rparr>"

definition exampleAttachment :: HostNetworkAttachment where
  "exampleAttachment =
     \<lparr>hna_Name = ''test-attachment'', hna_Namespace = ''test-ns'',
      hna_Spec = \<lparr>Mode = ''access'', NativeVLAN = 100, AllowedVLANs = None, MTU = None\<rparr>\<rparr>"

definition emptyClient :: ReconcilerClient where
  "emptyClient = \<lparr>rc_attachments = (\<lambda>key. None), rc_get_failure = (\<lambda>key. None)\<rparr>"

definition attachmentClient :: ReconcilerClient where
  "attachmentClient =
     \<lparr>rc_attachments = [(''test-ns'', ''test-attachment'') \<mapsto> exampleAttachment],
      rc_get_failure = (\<lambda>key. None)\<rparr>"

definition missingInterface :: NetworkInterface where
  "missingInterface =
     \<lparr>netif_Name = ''eth1'', netif_MACAddress = [],
      netif_HostNetworkAttachment = \<lparr>ref_Name = ''non-existent'', ref_Namespace = []\<rparr>\<rparr>"

definition discoveredHost :: BareMetalHost where
  "discoveredHost =
     exampleHost\<lparr>bmh_HardwareDetails :=
       Some (Some [\<lparr>nic_Name = ''eth0'', nic_MAC = ''00:11:22:33:44:55'', nic_PXE = False\<rparr>])\<rparr>"

definition nilDataClient :: SwitchClient where
  "nilDataClient =
     switch1Client\<lparr>sc_secrets := [(''test-ns'', ''switch-credentials'') \<mapsto>
       \<lparr>secret_Data = None, secret_ResourceVersion = 4\<rparr>]\<rparr>"




definition exampleNICs :: "NIC list" where
  "exampleNICs =
     [\<lparr>nic_Name = ''eth0'', nic_MAC = ''AA:BB:CC:DD:EE:00'', nic_PXE = True\<rparr>,
      \<lparr>nic_Name = ''eth0'', nic_MAC = ''aa:bb:cc:dd:ee:00'', nic_PXE = False\<rparr>,
      \<lparr>nic_Name = ''lo'', nic_MAC = [], nic_PXE = False\<rparr>,
      \<lparr>nic_Name = ''eth1'', nic_MAC = ''aa:bb:cc:dd:ee:01'', nic_PXE = False\<rparr>,
      \<lparr>nic_Name = ''eth2'', nic_MAC = ''aa:bb:cc:dd:ee:02'', nic_PXE = False\<rparr>,
      \<lparr>nic_Name = ''eth3'', nic_MAC = ''aa:bb:cc:dd:ee:03'', nic_PXE = False\<rparr>,
      \<lparr>nic_Name = ''eth4'', nic_MAC = ''aa:bb:cc:dd:ee:04'', nic_PXE = False\<rparr>]"

definition exampleProvisioner :: ironicProvisioner where
  "exampleProvisioner =
     \<lparr>p_bootMACAddress = ''aa:bb:cc:dd:ee:00'', p_switchPortConfigs = (\<lambda>key. None),
      p_storedHardwareDetails = Some (Some exampleNICs)\<rparr>"

text \<open>
  A service whose state is the list of the interfaces whose port was requested, and which
  refuses every port but that of \<open>eth0\<close>.
\<close>

definition exampleOps :: "string list ironicOps" where
  "exampleOps =
     \<lparr>op_deduplicateNICsByMAC = deduplicateNICsByMAC,
      op_listNodePorts = (\<lambda>st nodeUUID. Inr []),
      op_ensurePort = (\<lambda>st nodeUUID nic isPXEPort switchConfig existingPort.
         (if nic_Name nic = ''eth0'' then None else Some ''conflict'', st @ [nic_Name nic])),
      op_nodeHasAssignedPort = (\<lambda>st nodeUUID. Inr False),
      op_isAddressAllocatedToPort = (\<lambda>st mac. Inr False),
      op_createPXEEnabledNodePort = (\<lambda>st nodeUUID mac switchConfig. (None, st))\<rparr>"

definition leafA :: BareMetalSwitch where
  "leafA =
     switch1\<lparr>sw_Name := ''leaf-a'', sw_Address := ''192.168.1.2'',
             sw_MACAddress := ''00:00:5e:00:53:02'', sw_Driver := ''generic-switch'',
             sw_Port := Some 22\<rparr>"

definition publishClient :: SwitchClient where
  "publishClient =
     switch1Client\<lparr>sc_switches := [switch1, leafA],
       sc_secrets := [(''test-ns'', ''switch1-creds'') \<mapsto> switch1Secret,
                      (''test-ns'', ''switch-configs'') \<mapsto>
                        \<lparr>secret_Data = None, secret_ResourceVersion = 1\<rparr>,
                      (''test-ns'', ''switch-credentials'') \<mapsto>
                        \<lparr>secret_Data = None, secret_ResourceVersion = 1\<rparr>]\<rparr>"

definition slashJoin :: "string \<Rightarrow> string \<Rightarrow> string" where
  \<comment> \<open>what \<open>filepath.Join\<close> returns for a clean directory and a file name\<close>
  "slashJoin dir file = dir @ ''/'' @ file"

section \<open>Properties of the string helpers\<close>

lemma has_prefix_iff: "has_prefix s sub \<longleftrightarrow> (\<exists>b. s = sub @ b)"
  by (induction s sub rule: has_prefix.induct) auto

lemma contains_iff: "contains s sub \<longleftrightarrow> (\<exists>a b. s = a @ sub @ b)"
proof (induction s)
  case Nil
  then show ?case by (auto simp: has_prefix_iff)
next
  case (Cons x xs)
  show ?case
  proof
    assume "contains (x # xs) sub"
    then consider "has_prefix (x # xs) sub" | "contains xs sub" by auto
    then show "\<exists>a b. x # xs = a @ sub @ b"
    proof cases
      case 1
      then obtain b where "x # xs = sub @ b" by (auto simp: has_prefix_iff)
      then have "x # xs = [] @ sub @ b" by simp
      then show ?thesis by blast
    next
      case 2
      then obtain a b where "xs = a @ sub @ b" using Cons.IH by auto
      then have "x # xs = (x # a) @ sub @ b" by simp
      then show ?thesis by blast
    qed
  next
    assume "\<exists>a b. x # xs = a @ sub @ b"
    then obtain a b where ab: "x # xs = a @ sub @ b" by auto
    show "contains (x # xs) sub"
    proof (cases a)
      case Nil
      then have "has_prefix (x # xs) sub" using ab by (simp add: has_prefix_iff)
      then show ?thesis by simp
    next
      case (Cons y ys)
      then have "xs = ys @ sub @ b" using ab by simp
      then show ?thesis using Cons.IH by auto
    qed
  qed
qed

lemma contains_middle: "contains (a @ sub @ b) sub"
  by (auto simp: contains_iff)

lemma vlan_msg_contains:
  "contains (pre @ ''VLAN ID '' @ show_int v @ '' is out of range (1-4094)'') ''out of range''"
proof -
  have "pre @ ''VLAN ID '' @ show_int v @ '' is out of range (1-4094)''
        = (pre @ ''VLAN ID '' @ show_int v @ '' is '') @ ''out of range'' @ '' (1-4094)''"
    by simp
  then show ?thesis by (metis contains_middle)
qed

lemma mtu_msg_contains:
  "contains (''MTU '' @ show_int v @ '' is out of range (68-9000)'') ''out of range''"
proof -
  have "''MTU '' @ show_int v @ '' is out of range (68-9000)''
        = (''MTU '' @ show_int v @ '' is '') @ ''out of range'' @ '' (68-9000)''"
    by simp
  then show ?thesis by (metis contains_middle)
qed

lemma access_msg_not_contains:
  "\<not> contains ''allowedVlans cannot be specified for access mode'' ''out of range''"
  by simp

lemma mode_msg_contains:
  "contains (''invalid switchport mode: '' @ m) ''out of range'' = contains m ''out of range''"
  by simp

section \<open>Field validation of attachments\<close>

lemma validateVLANList_None: "validateVLANList vs = None \<longleftrightarrow> (\<forall>v\<in>set vs. \<not> (v < 1 \<or> v > 4094))"
  by (induction vs) (auto simp: validateVLANID_def split: option.splits if_splits)

lemma validateVLANList_Some:
  "validateVLANList vs = Some err \<Longrightarrow> contains (pre @ err) ''out of range''"
proof (induction vs)
  case Nil then show ?case by simp
next
  case (Cons v vs)
  show ?case
  proof (cases "validateVLANID v")
    case None
    then show ?thesis using Cons by simp
  next
    case (Some e)
    then have "err = e" using Cons.prems by simp
    moreover have "e = ''VLAN ID '' @ show_int v @ '' is out of range (1-4094)''"
      using Some by (auto simp: validateVLANID_def split: if_splits)
    ultimately show ?thesis using vlan_msg_contains[of pre v] by simp
  qed
qed

lemma validateMode_cases:
  "validateMode a =
     (if Mode (hna_Spec a) = ''access'' then
        (if elems (AllowedVLANs (hna_Spec a)) \<noteq> []
         then Some ''allowedVlans cannot be specified for access mode'' else None)
      else if Mode (hna_Spec a) = ''trunk'' \<or> Mode (hna_Spec a) = ''hybrid'' then
        (case validateVLANList (elems (AllowedVLANs (hna_Spec a))) of
           Some err \<Rightarrow> Some (''invalid allowedVlans: '' @ err) | None \<Rightarrow> None)
      else Some (''invalid switchport mode: '' @ Mode (hna_Spec a)))"
  by (simp add: validateMode_def Let_def len_def SwitchportModeAccess_def
        SwitchportModeTrunk_def SwitchportModeHybrid_def)

lemma switchport_out_of_range:
  "(\<exists>err. validateSwitchportConfiguration a = Some err \<and> contains err ''out of range'') \<longleftrightarrow>
     ((Mode (hna_Spec a) = ''trunk'' \<or> Mode (hna_Spec a) = ''hybrid'')
        \<and> ((\<exists>v\<in>set (elems (AllowedVLANs (hna_Spec a))). v < 1 \<or> v > 4094)
             \<or> NativeVLAN (hna_Spec a) < 1 \<or> NativeVLAN (hna_Spec a) > 4094)
      \<or> Mode (hna_Spec a) = ''access'' \<and> elems (AllowedVLANs (hna_Spec a)) = []
        \<and> (NativeVLAN (hna_Spec a) < 1 \<or> NativeVLAN (hna_Spec a) > 4094)
      \<or> Mode (hna_Spec a) \<noteq> ''access'' \<and> Mode (hna_Spec a) \<noteq> ''trunk''
        \<and> Mode (hna_Spec a) \<noteq> ''hybrid'' \<and> contains (Mode (hna_Spec a)) ''out of range'')"
proof -
  let ?m = "Mode (hna_Spec a)" and ?al = "elems (AllowedVLANs (hna_Spec a))"
  let ?n = "NativeVLAN (hna_Spec a)"
  have native: "(\<exists>err. (case validateVLANID ?n of Some e \<Rightarrow> Some (''invalid nativeVlan: '' @ e) | None \<Rightarrow> None) = Some err
                  \<and> contains err ''out of range'') \<longleftrightarrow> (?n < 1 \<or> ?n > 4094)"
    using vlan_msg_contains[of "''invalid nativeVlan: ''" ?n]
    by (auto simp: validateVLANID_def)
  consider (acc) "?m = ''access''" | (tr) "?m = ''trunk'' \<or> ?m = ''hybrid''"
    | (other) "?m \<noteq> ''access''" "?m \<noteq> ''trunk''" "?m \<noteq> ''hybrid''" by blast
  then show ?thesis
  proof cases
    case acc
    show ?thesis
    proof (cases "?al = []")
      case True
      then have "validateMode a = None" using acc by (simp add: validateMode_cases)
      then show ?thesis using native acc True by (simp add: validateSwitchportConfiguration_def)
    next
      case False
      then have "validateMode a = Some ''allowedVlans cannot be specified for access mode''"
        using acc by (simp add: validateMode_cases)
      then show ?thesis using acc False access_msg_not_contains
        by (simp add: validateSwitchportConfiguration_def)
    qed
  next
    case tr
    then have notacc: "?m \<noteq> ''access''" by auto
    show ?thesis
    proof (cases "validateVLANList ?al")
      case None
      then have "validateMode a = None" using tr notacc by (simp add: validateMode_cases)
      moreover have "\<not> (\<exists>v\<in>set ?al. v < 1 \<or> v > 4094)" using None validateVLANList_None by blast
      ultimately show ?thesis using native tr notacc
        by (auto simp: validateSwitchportConfiguration_def)
    next
      case (Some e)
      then have vm: "validateMode a = Some (''invalid allowedVlans: '' @ e)"
        using tr notacc by (simp add: validateMode_cases)
      have "\<exists>v\<in>set ?al. v < 1 \<or> v > 4094" using Some validateVLANList_None[of ?al] by auto
      moreover have "contains (''invalid allowedVlans: '' @ e) ''out of range''"
        using validateVLANList_Some[OF Some] by blast
      ultimately show ?thesis using vm tr notacc
        by (simp add: validateSwitchportConfiguration_def)
    qed
  next
    case other
    then have "validateMode a = Some (''invalid switchport mode: '' @ ?m)"
      by (simp add: validateMode_cases)
    then show ?thesis using other mode_msg_contains[of ?m]
      by (simp add: validateSwitchportConfiguration_def)
  qed
qed

lemma mtu_out_of_range:
  "(\<exists>err. validateMTU a = Some err \<and> contains err ''out of range'') \<longleftrightarrow>
     (\<exists>mtu. MTU (hna_Spec a) = Some mtu \<and> (mtu < 68 \<or> mtu > 9000))"
  using mtu_msg_contains by (auto simp: validateMTU_def split: option.splits)

lemma validateAttachment_errs:
  "(\<exists>err\<in>set (validateAttachment a). P err) \<longleftrightarrow>
     (\<exists>err. validateSwitchportConfiguration a = Some err \<and> P err)
     \<or> (\<exists>err. validateMTU a = Some err \<and> P err)"
  by (auto simp: validateAttachment_def split: option.splits)

text \<open>
  Claim C2, as the code has it. \<open>validateAttachment\<close> returns an error whose message
  contains \<open>out of range\<close> exactly when the MTU is present and outside 68..9000, or the mode
  is trunk or hybrid and the native VLAN or some allowed VLAN is outside 1..4094, or the mode
  is access with no allowed VLANs and the native VLAN is outside 1..4094, or the mode is none
  of the three and its own text contains \<open>out of range\<close>. The native VLAN is checked only
  after the mode check has passed, and allowed VLANs are range-checked only in trunk and
  hybrid mode.
\<close>

theorem validateAttachment_out_of_range:
  "(\<exists>err\<in>set (validateAttachment a). contains err ''out of range'') \<longleftrightarrow>
     ((Mode (hna_Spec a) = ''trunk'' \<or> Mode (hna_Spec a) = ''hybrid'')
        \<and> ((\<exists>v\<in>set (elems (AllowedVLANs (hna_Spec a))). v < 1 \<or> v > 4094)
             \<or> NativeVLAN (hna_Spec a) < 1 \<or> NativeVLAN (hna_Spec a) > 4094)
      \<or> Mode (hna_Spec a) = ''access'' \<and> elems (AllowedVLANs (hna_Spec a)) = []
        \<and> (NativeVLAN (hna_Spec a) < 1 \<or> NativeVLAN (hna_Spec a) > 4094)
      \<or> Mode (hna_Spec a) \<noteq> ''access'' \<and> Mode (hna_Spec a) \<noteq> ''trunk''
        \<and> Mode (hna_Spec a) \<noteq> ''hybrid'' \<and> contains (Mode (hna_Spec a)) ''out of range''
      \<or> (\<exists>mtu. MTU (hna_Spec a) = Some mtu \<and> (mtu < 68 \<or> mtu > 9000)))"
  unfolding validateAttachment_errs switchport_out_of_range mtu_out_of_range by blast

theorem validateAttachment_out_of_range_witness:
  "(\<exists>err\<in>set (validateAttachment
       \<lparr>hna_Name = ''a'', hna_Namespace = ''ns'',
        hna_Spec = \<lparr>Mode = ''trunk'', NativeVLAN = 1, AllowedVLANs = Some [10, 5000], MTU = Some 1500\<rparr>\<rparr>).
      contains err ''out of range'')"
  using validateAttachment_out_of_range
    [of "\<lparr>hna_Name = ''a'', hna_Namespace = ''ns'',
        hna_Spec = \<lparr>Mode = ''trunk'', NativeVLAN = 1, AllowedVLANs = Some [10, 5000], MTU = Some 1500\<rparr>\<rparr>"]
  by (simp add: elems_def)

text \<open>
  The claim as stated fails in access mode: with allowed VLANs set, the mode check returns
  first and a native VLAN of 0 is never reported as out of range.
\<close>

theorem validateAttachment_access_native_counterexample:
  "validateAttachment
     \<lparr>hna_Name = ''a'', hna_Namespace = ''ns'',
      hna_Spec = \<lparr>Mode = ''access'', NativeVLAN = 0, AllowedVLANs = Some [100], MTU = None\<rparr>\<rparr>
   = [''allowedVlans cannot be specified for access mode'']
   \<and> \<not> contains ''allowedVlans cannot be specified for access mode'' ''out of range''
   \<and> NativeVLAN \<lparr>Mode = ''access'', NativeVLAN = 0, AllowedVLANs = Some [100], MTU = None\<rparr> < 1"
  by (simp add: validateAttachment_def validateSwitchportConfiguration_def validateMode_def
        validateMTU_def SwitchportModeAccess_def len_def elems_def)

text \<open>
  Claim C10. When the old and the new spec are deeply equal, \<open>validateUpdate\<close> returns no
  warning and no error, whatever field validation found: the errors computed first are
  dropped, so an update that leaves an invalid spec as it is is admitted.
\<close>

theorem validateUpdate_unchanged_spec:
  "hna_Spec oldAttachment = hna_Spec newAttachment \<Longrightarrow>
     validateUpdate c oldAttachment newAttachment = ([], None)"
  by (simp add: validateUpdate_def)

theorem validateUpdate_unchanged_spec_witness:
  "validateAttachment
     \<lparr>hna_Name = ''test-attachment'', hna_Namespace = ''test-ns'',
      hna_Spec = \<lparr>Mode = ''access'', NativeVLAN = 5000, AllowedVLANs = None, MTU = None\<rparr>\<rparr>
     = [''invalid nativeVlan: VLAN ID 5000 is out of range (1-4094)'']
   \<and> validateUpdate \<lparr>wc_hosts = [], wc_list_error = None\<rparr>
       \<lparr>hna_Name = ''test-attachment'', hna_Namespace = ''test-ns'',
        hna_Spec = \<lparr>Mode = ''access'', NativeVLAN = 5000, AllowedVLANs = None, MTU = None\<rparr>\<rparr>
       \<lparr>hna_Name = ''test-attachment'', hna_Namespace = ''test-ns'',
        hna_Spec = \<lparr>Mode = ''access'', NativeVLAN = 5000, AllowedVLANs = None, MTU = None\<rparr>\<rparr>
     = ([], None)"
  using validateUpdate_unchanged_spec
    [of "\<lparr>hna_Name = ''test-attachment'', hna_Namespace = ''test-ns'',
        hna_Spec = \<lparr>Mode = ''access'', NativeVLAN = 5000, AllowedVLANs = None, MTU = None\<rparr>\<rparr>"
        "\<lparr>hna_Name = ''test-attachment'', hna_Namespace = ''test-ns'',
        hna_Spec = \<lparr>Mode = ''access'', NativeVLAN = 5000, AllowedVLANs = None, MTU = None\<rparr>\<rparr>"
        "\<lparr>wc_hosts = [], wc_list_error = None\<rparr>"]
  by (simp add: validateAttachment_def validateSwitchportConfiguration_def validateMode_def
        validateMTU_def validateVLANID_def SwitchportModeAccess_def len_def elems_def
        show_int_def decimal.simps digit_char_def)

section \<open>Drift detection\<close>

text \<open>
  Claim C3. \<open>switchPortConfigurationNeedsUpdate\<close> applies its rules in order: with no declared
  interface it asks for an update, reason \<open>NetworkInterfacesRemoved\<close>, exactly when something
  had been applied; with declared interfaces it returns no update while the
  \<open>NetworkInterfacesValid\<close> condition is absent or not true; then an unset applied list gives
  \<open>InitialConfiguration\<close>, an applied list that differs from the declared one as a list
  (element by element, in order) gives \<open>NetworkInterfaceSpecChanged\<close>, and an equal one no
  update.
\<close>

theorem switchPortConfigurationNeedsUpdate_rules:
  "(elems (bmh_NetworkInterfaces host) = [] \<and> elems (bmh_AppliedNetworkInterfaces host) \<noteq> []
      \<longrightarrow> switchPortConfigurationNeedsUpdate host = (True, ''NetworkInterfacesRemoved''))
   \<and> (elems (bmh_NetworkInterfaces host) = [] \<and> elems (bmh_AppliedNetworkInterfaces host) = []
      \<longrightarrow> switchPortConfigurationNeedsUpdate host = (False, []))
   \<and> (elems (bmh_NetworkInterfaces host) \<noteq> []
        \<and> (FindStatusCondition (bmh_Conditions host) ''NetworkInterfacesValid'' = None
             \<or> (\<exists>c. FindStatusCondition (bmh_Conditions host) ''NetworkInterfacesValid'' = Some c
                      \<and> cond_Status c \<noteq> ConditionTrue))
      \<longrightarrow> switchPortConfigurationNeedsUpdate host = (False, []))
   \<and> (elems (bmh_NetworkInterfaces host) \<noteq> []
        \<and> (\<exists>c. FindStatusCondition (bmh_Conditions host) ''NetworkInterfacesValid'' = Some c
                 \<and> cond_Status c = ConditionTrue)
        \<and> bmh_AppliedNetworkInterfaces host = None
      \<longrightarrow> switchPortConfigurationNeedsUpdate host = (True, ''InitialConfiguration''))
   \<and> (elems (bmh_NetworkInterfaces host) \<noteq> []
        \<and> (\<exists>c. FindStatusCondition (bmh_Conditions host) ''NetworkInterfacesValid'' = Some c
                 \<and> cond_Status c = ConditionTrue)
        \<and> bmh_AppliedNetworkInterfaces host \<noteq> None
        \<and> elems (bmh_NetworkInterfaces host) \<noteq> elems (bmh_AppliedNetworkInterfaces host)
      \<longrightarrow> switchPortConfigurationNeedsUpdate host = (True, ''NetworkInterfaceSpecChanged''))
   \<and> (elems (bmh_NetworkInterfaces host) \<noteq> []
        \<and> (\<exists>c. FindStatusCondition (bmh_Conditions host) ''NetworkInterfacesValid'' = Some c
                 \<and> cond_Status c = ConditionTrue)
        \<and> bmh_AppliedNetworkInterfaces host \<noteq> None
        \<and> elems (bmh_NetworkInterfaces host) = elems (bmh_AppliedNetworkInterfaces host)
      \<longrightarrow> switchPortConfigurationNeedsUpdate host = (False, []))"
  by (auto simp: switchPortConfigurationNeedsUpdate_def networkInterfaceValidationPassed_def
        ConditionNetworkInterfacesValid_def len_def elems_def split: option.splits)

theorem switchPortConfigurationNeedsUpdate_rules_witness:
  "switchPortConfigurationNeedsUpdate
     (exampleHost\<lparr>bmh_NetworkInterfaces := None,
                  bmh_AppliedNetworkInterfaces := Some [exampleInterface]\<rparr>)
     = (True, ''NetworkInterfacesRemoved'')
   \<and> switchPortConfigurationNeedsUpdate
       (exampleHost\<lparr>bmh_NetworkInterfaces := Some [], bmh_AppliedNetworkInterfaces := Some []\<rparr>)
     = (False, [])
   \<and> switchPortConfigurationNeedsUpdate exampleHost = (False, [])
   \<and> switchPortConfigurationNeedsUpdate
       (exampleHost\<lparr>bmh_Conditions := [validCondition\<lparr>cond_Status := ConditionFalse\<rparr>]\<rparr>)
     = (False, [])
   \<and> switchPortConfigurationNeedsUpdate (exampleHost\<lparr>bmh_Conditions := [validCondition]\<rparr>)
     = (True, ''InitialConfiguration'')
   \<and> switchPortConfigurationNeedsUpdate
       (exampleHost\<lparr>bmh_Conditions := [validCondition],
                    bmh_AppliedNetworkInterfaces :=
                      Some [exampleInterface\<lparr>netif_Name := ''eth1''\<rparr>]\<rparr>)
     = (True, ''NetworkInterfaceSpecChanged'')
   \<and> switchPortConfigurationNeedsUpdate
       (exampleHost\<lparr>bmh_Conditions := [validCondition],
                    bmh_AppliedNetworkInterfaces := Some [exampleInterface]\<rparr>)
     = (False, [])"
  using
    switchPortConfigurationNeedsUpdate_rules
      [of "exampleHost\<lparr>bmh_NetworkInterfaces := None,
                        bmh_AppliedNetworkInterfaces := Some [exampleInterface]\<rparr>"]
    switchPortConfigurationNeedsUpdate_rules
      [of "exampleHost\<lparr>bmh_NetworkInterfaces := Some [], bmh_AppliedNetworkInterfaces := Some []\<rparr>"]
    switchPortConfigurationNeedsUpdate_rules [of exampleHost]
    switchPortConfigurationNeedsUpdate_rules
      [of "exampleHost\<lparr>bmh_Conditions := [validCondition\<lparr>cond_Status := ConditionFalse\<rparr>]\<rparr>"]
    switchPortConfigurationNeedsUpdate_rules [of "exampleHost\<lparr>bmh_Conditions := [validCondition]\<rparr>"]
    switchPortConfigurationNeedsUpdate_rules
      [of "exampleHost\<lparr>bmh_Conditions := [validCondition],
                        bmh_AppliedNetworkInterfaces :=
                          Some [exampleInterface\<lparr>netif_Name := ''eth1''\<rparr>]\<rparr>"]
    switchPortConfigurationNeedsUpdate_rules
      [of "exampleHost\<lparr>bmh_Conditions := [validCondition],
                        bmh_AppliedNetworkInterfaces := Some [exampleInterface]\<rparr>"]
  by (simp add: exampleHost_def exampleInterface_def validCondition_def elems_def)

section \<open>Switch configuration entries\<close>

text \<open>
  Claim C4. For the switch \<open>switch1\<close> with address \<open>192.168.1.1\<close>, MAC address
  \<open>00:00:5e:00:53:01\<close>, device type \<open>cisco_ios\<close>, no driver, port or certificate flag, and
  password credentials \<open>admin\<close>/\<open>secret123\<close>, \<open>writeSwitchEntry\<close> stores under the key
  \<open>switch1\<close> exactly the seven lines below, the driver type defaulted to \<open>generic-switch\<close>,
  followed by one blank line, and leaves the key files as they were.
\<close>

theorem writeSwitchEntry_switch1:
  assumes "sw_Name sw = ''switch1''" and "sw_Address sw = ''192.168.1.1''"
    and "sw_MACAddress sw = ''00:00:5e:00:53:01''" and "sw_DeviceType sw = ''cisco_ios''"
    and "sw_Driver sw = []" and "sw_Port sw = None"
    and "sw_DisableCertificateVerification sw = None"
    and "cred_Type (sw_Credentials sw) = SwitchCredentialTypePassword"
    and "Get_secret c (sw_Namespace sw) (cred_SecretName (sw_Credentials sw)) = Inr secret"
    and "fmlookup (entries (secret_Data secret)) ''username'' = Some ''admin''"
    and "fmlookup (entries (secret_Data secret)) ''password'' = Some ''secret123''"
  shows "writeSwitchEntry pathJoin c sw credentialsPath configEntries keyFiles =
     Inr (fmupd ''switch1''
            (''[switch:switch1]'' @ nl @ ''address=192.168.1.1'' @ nl
               @ ''mac_address=00:00:5e:00:53:01'' @ nl @ ''driver_type=generic-switch'' @ nl
               @ ''device_type=cisco_ios'' @ nl @ ''username=admin'' @ nl
               @ ''password=secret123'' @ nl @ nl)
            configEntries,
          keyFiles)"
  using assms
  by (simp add: writeSwitchEntry_def Let_def SwitchCredentialTypePassword_def
        SwitchCredentialTypePublicKey_def)

theorem writeSwitchEntry_switch1_witness:
  "writeSwitchEntry (\<lambda>dir file. dir @ ''/'' @ file) switch1Client switch1 ''/etc/creds''
       fmempty fmempty =
     Inr (fmupd ''switch1''
            (''[switch:switch1]'' @ nl @ ''address=192.168.1.1'' @ nl
               @ ''mac_address=00:00:5e:00:53:01'' @ nl @ ''driver_type=generic-switch'' @ nl
               @ ''device_type=cisco_ios'' @ nl @ ''username=admin'' @ nl
               @ ''password=secret123'' @ nl @ nl)
            fmempty,
          fmempty)"
  using writeSwitchEntry_switch1
    [where sw = switch1 and c = switch1Client and secret = switch1Secret
       and pathJoin = "\<lambda>dir file. dir @ ''/'' @ file" and credentialsPath = "''/etc/creds''"
       and configEntries = fmempty and keyFiles = fmempty]
  by (simp add: switch1_def switch1Client_def switch1Secret_def Get_secret_def entries_def
        SwitchCredentialTypePassword_def)

section \<open>Attachment resolution: missing and failing fetches\<close>

lemma resolveLoop_failure:
  "\<exists>netIf\<in>set ifs. \<exists>err. fetchAttachment c host netIf = Inl (GetFailed err) \<Longrightarrow>
     \<exists>msg. resolveLoop c host ifs configs = Inl msg"
proof (induction ifs arbitrary: configs)
  case Nil
  then show ?case by simp
next
  case (Cons netIf rest)
  show ?case
  proof (cases "fetchAttachment c host netIf")
    case (Inl e)
    show ?thesis
    proof (cases e)
      case NotFound
      then have "\<exists>n\<in>set rest. \<exists>err. fetchAttachment c host n = Inl (GetFailed err)"
        using Cons.prems Inl by auto
      then show ?thesis using Cons.IH Inl NotFound by simp
    next
      case (GetFailed err)
      then show ?thesis using Inl by simp
    qed
  next
    case (Inr a)
    then have "\<exists>n\<in>set rest. \<exists>err. fetchAttachment c host n = Inl (GetFailed err)"
      using Cons.prems by auto
    then show ?thesis using Cons.IH Inr by simp
  qed
qed

lemma resolveLoop_no_failure:
  "\<forall>netIf\<in>set ifs. \<forall>err. fetchAttachment c host netIf \<noteq> Inl (GetFailed err) \<Longrightarrow>
     \<exists>m. resolveLoop c host ifs configs = Inr m
       \<and> (\<forall>k v. fmlookup m k = Some v \<longrightarrow>
             fmlookup configs k = Some v
             \<or> (\<exists>netIf\<in>set ifs. \<exists>a. GetKey netIf = k \<and> fetchAttachment c host netIf = Inr a
                    \<and> v = configOf a))
       \<and> (\<forall>k. k |\<in>| fmdom m \<longleftrightarrow>
             k |\<in>| fmdom configs
             \<or> (\<exists>netIf\<in>set ifs. \<exists>a. GetKey netIf = k \<and> fetchAttachment c host netIf = Inr a))"
proof (induction ifs arbitrary: configs)
  case Nil
  then show ?case by simp
next
  case (Cons netIf rest)
  have rest: "\<forall>n\<in>set rest. \<forall>err. fetchAttachment c host n \<noteq> Inl (GetFailed err)"
    using Cons.prems by simp
  show ?case
  proof (cases "fetchAttachment c host netIf")
    case (Inl e)
    then have e: "e = NotFound" using Cons.prems by (cases e) auto
    have step: "resolveLoop c host (netIf # rest) configs = resolveLoop c host rest configs"
      using Inl e by simp
    from Cons.IH[OF rest, of configs] obtain m where
      m: "resolveLoop c host rest configs = Inr m"
        "\<forall>k v. fmlookup m k = Some v \<longrightarrow> fmlookup configs k = Some v
             \<or> (\<exists>n\<in>set rest. \<exists>a. GetKey n = k \<and> fetchAttachment c host n = Inr a \<and> v = configOf a)"
        "\<forall>k. k |\<in>| fmdom m \<longleftrightarrow> k |\<in>| fmdom configs
             \<or> (\<exists>n\<in>set rest. \<exists>a. GetKey n = k \<and> fetchAttachment c host n = Inr a)"
      by blast
    show ?thesis
      apply (rule exI[of _ m])
      using m step Inl e by auto
  next
    case (Inr a)
    let ?cfg = "fmupd (GetKey netIf) (configOf a) configs"
    have step: "resolveLoop c host (netIf # rest) configs = resolveLoop c host rest ?cfg"
      using Inr by simp
    from Cons.IH[OF rest, of ?cfg] obtain m where
      m: "resolveLoop c host rest ?cfg = Inr m"
        "\<forall>k v. fmlookup m k = Some v \<longrightarrow> fmlookup ?cfg k = Some v
             \<or> (\<exists>n\<in>set rest. \<exists>a. GetKey n = k \<and> fetchAttachment c host n = Inr a \<and> v = configOf a)"
        "\<forall>k. k |\<in>| fmdom m \<longleftrightarrow> k |\<in>| fmdom ?cfg
             \<or> (\<exists>n\<in>set rest. \<exists>a. GetKey n = k \<and> fetchAttachment c host n = Inr a)"
      by blast
    have vals: "\<forall>k v. fmlookup m k = Some v \<longrightarrow> fmlookup configs k = Some v
             \<or> (\<exists>n\<in>set (netIf # rest). \<exists>a. GetKey n = k \<and> fetchAttachment c host n = Inr a \<and> v = configOf a)"
    proof (intro allI impI)
      fix k v assume "fmlookup m k = Some v"
      then consider "fmlookup ?cfg k = Some v"
        | "\<exists>n\<in>set rest. \<exists>a. GetKey n = k \<and> fetchAttachment c host n = Inr a \<and> v = configOf a"
        using m(2) by blast
      then show "fmlookup configs k = Some v
             \<or> (\<exists>n\<in>set (netIf # rest). \<exists>a. GetKey n = k \<and> fetchAttachment c host n = Inr a \<and> v = configOf a)"
      proof cases
        case 1
        then show ?thesis using Inr by (cases "k = GetKey netIf") auto
      next
        case 2
        then show ?thesis by auto
      qed
    qed
    have keys: "\<forall>k. k |\<in>| fmdom m \<longleftrightarrow> k |\<in>| fmdom configs
             \<or> (\<exists>n\<in>set (netIf # rest). \<exists>a. GetKey n = k \<and> fetchAttachment c host n = Inr a)"
      using m(3) Inr by auto
    show ?thesis using m(1) step vals keys by auto
  qed
qed

text \<open>
  Claim C6. If the fetch of some declared interface's attachment fails for a reason other
  than absence, \<open>resolveSwitchPortConfigs\<close> returns an error and no map. Otherwise it returns
  a map and no error, whose keys are exactly the keys of the interfaces whose attachment was
  found, each bound to the configuration of such an attachment: an interface whose attachment
  is not found contributes nothing. A host whose only interface refers to a missing
  attachment gets the empty map.
\<close>

theorem resolveSwitchPortConfigs_skips_missing:
  "((\<exists>netIf\<in>set (elems (bmh_NetworkInterfaces host)).
        \<exists>err. fetchAttachment c host netIf = Inl (GetFailed err))
      \<longrightarrow> (\<exists>msg. resolveSwitchPortConfigs c host = Inl msg))
   \<and> ((\<forall>netIf\<in>set (elems (bmh_NetworkInterfaces host)).
          \<forall>err. fetchAttachment c host netIf \<noteq> Inl (GetFailed err))
      \<longrightarrow> (\<exists>m. resolveSwitchPortConfigs c host = Inr m
            \<and> (\<forall>k. k |\<in>| fmdom m \<longleftrightarrow>
                  (\<exists>netIf\<in>set (elems (bmh_NetworkInterfaces host)).
                     \<exists>a. GetKey netIf = k \<and> fetchAttachment c host netIf = Inr a))
            \<and> (\<forall>k v. fmlookup m k = Some v \<longrightarrow>
                  (\<exists>netIf\<in>set (elems (bmh_NetworkInterfaces host)).
                     \<exists>a. GetKey netIf = k \<and> fetchAttachment c host netIf = Inr a
                       \<and> v = configOf a))))
   \<and> ((\<exists>netIf. elems (bmh_NetworkInterfaces host) = [netIf]
          \<and> fetchAttachment c host netIf = Inl NotFound)
      \<longrightarrow> resolveSwitchPortConfigs c host = Inr fmempty)"
proof (intro conjI impI)
  assume "\<exists>netIf\<in>set (elems (bmh_NetworkInterfaces host)).
            \<exists>err. fetchAttachment c host netIf = Inl (GetFailed err)"
  then show "\<exists>msg. resolveSwitchPortConfigs c host = Inl msg"
    unfolding resolveSwitchPortConfigs_def by (rule resolveLoop_failure)
next
  assume "\<forall>netIf\<in>set (elems (bmh_NetworkInterfaces host)).
            \<forall>err. fetchAttachment c host netIf \<noteq> Inl (GetFailed err)"
  from resolveLoop_no_failure[OF this, of fmempty]
  show "\<exists>m. resolveSwitchPortConfigs c host = Inr m
            \<and> (\<forall>k. k |\<in>| fmdom m \<longleftrightarrow>
                  (\<exists>netIf\<in>set (elems (bmh_NetworkInterfaces host)).
                     \<exists>a. GetKey netIf = k \<and> fetchAttachment c host netIf = Inr a))
            \<and> (\<forall>k v. fmlookup m k = Some v \<longrightarrow>
                  (\<exists>netIf\<in>set (elems (bmh_NetworkInterfaces host)).
                     \<exists>a. GetKey netIf = k \<and> fetchAttachment c host netIf = Inr a
                       \<and> v = configOf a))"
    unfolding resolveSwitchPortConfigs_def by auto
next
  assume "\<exists>netIf. elems (bmh_NetworkInterfaces host) = [netIf]
          \<and> fetchAttachment c host netIf = Inl NotFound"
  then show "resolveSwitchPortConfigs c host = Inr fmempty"
    unfolding resolveSwitchPortConfigs_def by auto
qed

theorem resolveSwitchPortConfigs_skips_missing_witness:
  "resolveSwitchPortConfigs emptyClient exampleHost = Inr fmempty
   \<and> (\<exists>msg. resolveSwitchPortConfigs
               (emptyClient\<lparr>rc_get_failure := (\<lambda>key. Some ''forbidden'')\<rparr>) exampleHost = Inl msg)
   \<and> (\<exists>m. resolveSwitchPortConfigs emptyClient
              (exampleHost\<lparr>bmh_NetworkInterfaces := Some []\<rparr>) = Inr m)
   \<and> resolveSwitchPortConfigs attachmentClient
         (exampleHost\<lparr>bmh_NetworkInterfaces := Some [exampleInterface, missingInterface]\<rparr>)
       = Inr (fmupd ''eth0'' (configOf exampleAttachment) fmempty)"
proof -
  have "resolveSwitchPortConfigs emptyClient exampleHost = Inr fmempty"
    using resolveSwitchPortConfigs_skips_missing [of exampleHost emptyClient]
    by (simp add: exampleHost_def exampleInterface_def emptyClient_def elems_def
          fetchAttachment_def Get_attachment_def)
  moreover have "\<exists>msg. resolveSwitchPortConfigs
               (emptyClient\<lparr>rc_get_failure := (\<lambda>key. Some ''forbidden'')\<rparr>) exampleHost = Inl msg"
    using resolveSwitchPortConfigs_skips_missing
      [of exampleHost "emptyClient\<lparr>rc_get_failure := (\<lambda>key. Some ''forbidden'')\<rparr>"]
    by (simp add: exampleHost_def exampleInterface_def emptyClient_def elems_def
          fetchAttachment_def Get_attachment_def)
  moreover have "\<exists>m. resolveSwitchPortConfigs emptyClient
              (exampleHost\<lparr>bmh_NetworkInterfaces := Some []\<rparr>) = Inr m"
    using resolveSwitchPortConfigs_skips_missing
      [of "exampleHost\<lparr>bmh_NetworkInterfaces := Some []\<rparr>" emptyClient]
    by (auto simp: exampleHost_def elems_def)
  moreover have "resolveSwitchPortConfigs attachmentClient
              (exampleHost\<lparr>bmh_NetworkInterfaces := Some [exampleInterface, missingInterface]\<rparr>)
            = Inr (fmupd ''eth0'' (configOf exampleAttachment) fmempty)"
    using resolveSwitchPortConfigs_skips_missing
      [of "exampleHost\<lparr>bmh_NetworkInterfaces := Some [exampleInterface, missingInterface]\<rparr>"
          attachmentClient]
    by (simp add: exampleHost_def exampleInterface_def missingInterface_def attachmentClient_def
          elems_def fetchAttachment_def Get_attachment_def resolveSwitchPortConfigs_def
          attachmentNS_def GetKey_def)
  ultimately show ?thesis by blast
qed

section \<open>Publishing secret data\<close>

lemma secretDataEqual_iff:
  "secretDataEqual a b \<longleftrightarrow> (\<forall>k. fmlookup (entries a) k = fmlookup (entries b) k)"
proof
  assume eq: "secretDataEqual a b"
  then have card: "fcard (fmdom (entries a)) = fcard (fmdom (entries b))"
    by (auto simp: secretDataEqual_def split: if_splits)
  have sub: "\<And>k v. fmlookup (entries a) k = Some v \<Longrightarrow> fmlookup (entries b) k = Some v"
    using eq by (auto simp: secretDataEqual_def fmpred_iff split: if_splits option.splits)
  then have "fmdom (entries a) |\<subseteq>| fmdom (entries b)"
    by (auto simp: fmlookup_dom_iff)
  then have dom: "fmdom (entries a) = fmdom (entries b)"
    using card by (simp add: fcard_seteq)
  show "\<forall>k. fmlookup (entries a) k = fmlookup (entries b) k"
  proof
    fix k
    show "fmlookup (entries a) k = fmlookup (entries b) k"
    proof (cases "fmlookup (entries a) k")
      case None
      then have "k |\<notin>| fmdom (entries b)" using dom by (metis fmdom_notI)
      then show ?thesis using None by (simp add: fmdom_notD)
    next
      case (Some v)
      then show ?thesis using sub by simp
    qed
  qed
next
  assume "\<forall>k. fmlookup (entries a) k = fmlookup (entries b) k"
  then have "entries a = entries b" by (auto intro: fmap_ext)
  then show "secretDataEqual a b"
    by (auto simp: secretDataEqual_def fmpred_iff)
qed

text \<open>
  Claim C8. For a secret that can be read: when the new data agree with the current data key
  for key (a \<open>nil\<close> map and an empty map both have no key), \<open>updateSecretData\<close> issues no
  \<open>Update\<close> and leaves the client's state, the stored secret included, as it was; when they
  differ it issues one \<open>Update\<close>, after which, if the call succeeds, the stored secret's data
  are the new map and every other secret is untouched.
\<close>

theorem updateSecretData_replaces_or_skips:
  assumes "Get_secret c namespace secretName = Inr secret"
  shows "((\<forall>k. fmlookup (entries (secret_Data secret)) k = fmlookup (entries newData) k)
            \<longrightarrow> updateSecretData c namespace secretName newData = (None, c))
     \<and> ((\<exists>k. fmlookup (entries (secret_Data secret)) k \<noteq> fmlookup (entries newData) k)
            \<and> sc_update_failure c (namespace, secretName) = None
          \<longrightarrow> (\<exists>c'. updateSecretData c namespace secretName newData = (None, c')
                \<and> sc_updates c' = sc_updates c @ [(namespace, secretName)]
                \<and> (\<exists>stored. sc_secrets c' (namespace, secretName) = Some stored
                       \<and> secret_Data stored = newData)
                \<and> (\<forall>key. key \<noteq> (namespace, secretName)
                       \<longrightarrow> sc_secrets c' key = sc_secrets c key)))
     \<and> ((\<exists>k. fmlookup (entries (secret_Data secret)) k \<noteq> fmlookup (entries newData) k)
            \<and> sc_update_failure c (namespace, secretName) \<noteq> None
          \<longrightarrow> (\<exists>err c'. updateSecretData c namespace secretName newData = (Some err, c')
                \<and> sc_updates c' = sc_updates c @ [(namespace, secretName)]
                \<and> sc_secrets c' = sc_secrets c))"
  using assms
  by (auto simp: updateSecretData_def secretDataEqual_iff Update_secret_def Let_def
           split: option.splits)

theorem updateSecretData_replaces_or_skips_witness:
  "updateSecretData switch1Client ''test-ns'' ''switch1-creds''
       (Some (fmupd ''password'' ''secret123'' (fmupd ''username'' ''admin'' fmempty)))
     = (None, switch1Client)
   \<and> updateSecretData nilDataClient ''test-ns'' ''switch-credentials'' (Some fmempty)
     = (None, nilDataClient)
   \<and> (\<exists>c'. updateSecretData nilDataClient ''test-ns'' ''switch-credentials''
               (Some (fmupd ''a.key'' ''KEY'' fmempty)) = (None, c')
          \<and> sc_updates c' = [(''test-ns'', ''switch-credentials'')]
          \<and> (\<exists>stored. sc_secrets c' (''test-ns'', ''switch-credentials'') = Some stored
                 \<and> secret_Data stored = Some (fmupd ''a.key'' ''KEY'' fmempty)))"
proof -
  have "updateSecretData switch1Client ''test-ns'' ''switch1-creds''
       (Some (fmupd ''password'' ''secret123'' (fmupd ''username'' ''admin'' fmempty)))
     = (None, switch1Client)"
    using updateSecretData_replaces_or_skips
      [of switch1Client "''test-ns''" "''switch1-creds''" switch1Secret
          "Some (fmupd ''password'' ''secret123'' (fmupd ''username'' ''admin'' fmempty))"]
    by (simp add: switch1Client_def switch1Secret_def Get_secret_def entries_def)
  moreover have "updateSecretData nilDataClient ''test-ns'' ''switch-credentials'' (Some fmempty)
     = (None, nilDataClient)"
    using updateSecretData_replaces_or_skips
      [of nilDataClient "''test-ns''" "''switch-credentials''"
          "\<lparr>secret_Data = None, secret_ResourceVersion = 4\<rparr>" "Some fmempty"]
    by (simp add: nilDataClient_def switch1Client_def Get_secret_def entries_def)
  moreover have "\<exists>c'. updateSecretData nilDataClient ''test-ns'' ''switch-credentials''
               (Some (fmupd ''a.key'' ''KEY'' fmempty)) = (None, c')
          \<and> sc_updates c' = [(''test-ns'', ''switch-credentials'')]
          \<and> (\<exists>stored. sc_secrets c' (''test-ns'', ''switch-credentials'') = Some stored
                 \<and> secret_Data stored = Some (fmupd ''a.key'' ''KEY'' fmempty))"
  proof -
    have "fmlookup (entries None) ''a.key''
            \<noteq> fmlookup (entries (Some (fmupd ''a.key'' ''KEY'' fmempty))) ''a.key''"
      by (simp add: entries_def)
    then have "\<exists>k. fmlookup (entries None) k
            \<noteq> fmlookup (entries (Some (fmupd ''a.key'' ''KEY'' fmempty))) k"
      by blast
    then show ?thesis
      using updateSecretData_replaces_or_skips
        [of nilDataClient "''test-ns''" "''switch-credentials''"
            "\<lparr>secret_Data = None, secret_ResourceVersion = 4\<rparr>"
            "Some (fmupd ''a.key'' ''KEY'' fmempty)"]
      by (auto simp: nilDataClient_def switch1Client_def Get_secret_def)
  qed
  ultimately show ?thesis by blast
qed

section \<open>Interface validation is idempotent\<close>

lemma Find_Remove: "FindStatusCondition (RemoveStatusCondition cs t) t = None"
  by (induction cs) (auto simp: RemoveStatusCondition_def)

lemma Find_None_Remove: "FindStatusCondition cs t = None \<Longrightarrow> RemoveStatusCondition cs t = cs"
  by (induction cs) (auto simp: RemoveStatusCondition_def split: if_splits)

lemma Find_Set:
  "\<exists>c. FindStatusCondition (SetStatusCondition now cs new) (cond_Type new) = Some c
       \<and> cond_Status c = cond_Status new \<and> cond_Reason c = cond_Reason new"
  by (induction cs) (auto simp: updateCondition_def Let_def)

lemma clear_noop:
  "FindStatusCondition (bmh_Conditions host) ConditionNetworkInterfacesValid = None \<Longrightarrow>
     clearNetworkInterfaceValidation host = (False, host)"
  by (simp add: clearNetworkInterfaceValidation_def)

lemma set_noop:
  "FindStatusCondition (bmh_Conditions host) ConditionNetworkInterfacesValid = Some existing \<Longrightarrow>
   cond_Status existing = status \<Longrightarrow> cond_Reason existing = reason \<Longrightarrow>
     setNetworkInterfaceValidation now host status reason message = (False, host)"
  by (simp add: setNetworkInterfaceValidation_def Let_def)

lemma clear_result:
  "clearNetworkInterfaceValidation host = (d, host') \<Longrightarrow>
     FindStatusCondition (bmh_Conditions host') ConditionNetworkInterfacesValid = None
     \<and> bmh_NetworkInterfaces host' = bmh_NetworkInterfaces host
     \<and> bmh_HardwareDetails host' = bmh_HardwareDetails host"
  by (auto simp: clearNetworkInterfaceValidation_def Find_Remove split: if_splits)

lemma set_result:
  "setNetworkInterfaceValidation now host status reason message = (d, host') \<Longrightarrow>
     (\<exists>c. FindStatusCondition (bmh_Conditions host') ConditionNetworkInterfacesValid = Some c
          \<and> cond_Status c = status \<and> cond_Reason c = reason)
     \<and> bmh_NetworkInterfaces host' = bmh_NetworkInterfaces host
     \<and> bmh_HardwareDetails host' = bmh_HardwareDetails host"
  using Find_Set[of now "bmh_Conditions host" "newValidationCondition status reason message"]
  by (auto simp: setNetworkInterfaceValidation_def Let_def newValidationCondition_def
        split: if_splits)

lemma perform_as_set:
  "performNetworkInterfaceValidation now host =
     (case validationVerdict host of (status, reason, message) \<Rightarrow>
        setNetworkInterfaceValidation now host status reason message)"
  by (simp add: performNetworkInterfaceValidation_def validationVerdict_def Let_def)

lemma validationVerdict_cong:
  "bmh_NetworkInterfaces host' = bmh_NetworkInterfaces host \<Longrightarrow>
   bmh_HardwareDetails host' = bmh_HardwareDetails host \<Longrightarrow> validationVerdict host' = validationVerdict host"
  by (simp add: validationVerdict_def)

lemma validate_twice:
  assumes "validateNetworkInterfaces now host = (dirty, host')"
  shows "validateNetworkInterfaces now' host' = (False, host')"
proof (cases "len (bmh_NetworkInterfaces host) = 0 \<or> \<not> isHardwareDiscoveryComplete host")
  case True
  then have "clearNetworkInterfaceValidation host = (dirty, host')"
    using assms by (auto simp: validateNetworkInterfaces_def split: if_splits)
  from clear_result[OF this] have r:
    "FindStatusCondition (bmh_Conditions host') ConditionNetworkInterfacesValid = None"
    "bmh_NetworkInterfaces host' = bmh_NetworkInterfaces host"
    "bmh_HardwareDetails host' = bmh_HardwareDetails host" by auto
  then have "validateNetworkInterfaces now' host' = clearNetworkInterfaceValidation host'"
    using True by (auto simp: validateNetworkInterfaces_def isHardwareDiscoveryComplete_def)
  then show ?thesis using clear_noop[OF r(1)] by simp
next
  case False
  obtain status reason message where v: "validationVerdict host = (status, reason, message)"
    by (cases "validationVerdict host") auto
  have "setNetworkInterfaceValidation now host status reason message = (dirty, host')"
    using assms False v by (auto simp: validateNetworkInterfaces_def perform_as_set)
  from set_result[OF this] obtain c where r:
    "FindStatusCondition (bmh_Conditions host') ConditionNetworkInterfacesValid = Some c"
    "cond_Status c = status" "cond_Reason c = reason"
    "bmh_NetworkInterfaces host' = bmh_NetworkInterfaces host"
    "bmh_HardwareDetails host' = bmh_HardwareDetails host" by auto
  have "validationVerdict host' = (status, reason, message)" using validationVerdict_cong[OF r(4,5)] v by simp
  then have "validateNetworkInterfaces now' host' =
      setNetworkInterfaceValidation now' host' status reason message"
    using False r(4,5)
    by (auto simp: validateNetworkInterfaces_def isHardwareDiscoveryComplete_def perform_as_set)
  then show ?thesis using set_noop[OF r(1,2,3)] by simp
qed

text \<open>
  Claim C9. Running \<open>validateNetworkInterfaces\<close> again on the host the first run returned
  reports not dirty and returns that host unchanged, whatever the clock shows. Setting the
  condition changes nothing when the existing condition has the same status and reason, and
  clearing it changes nothing when there is no such condition.
\<close>

theorem validateNetworkInterfaces_idempotent:
  "validateNetworkInterfaces now' (snd (validateNetworkInterfaces now host))
     = (False, snd (validateNetworkInterfaces now host))
   \<and> (\<forall>existing. FindStatusCondition (bmh_Conditions host) ConditionNetworkInterfacesValid
                    = Some existing
                 \<and> cond_Status existing = status \<and> cond_Reason existing = reason
        \<longrightarrow> setNetworkInterfaceValidation now host status reason message = (False, host))
   \<and> (FindStatusCondition (bmh_Conditions host) ConditionNetworkInterfacesValid = None
        \<longrightarrow> clearNetworkInterfaceValidation host = (False, host))"
  using validate_twice [of now host "fst (validateNetworkInterfaces now host)"
      "snd (validateNetworkInterfaces now host)" now']
    set_noop [of host _ status reason now message] clear_noop [of host]
  by auto

theorem validateNetworkInterfaces_idempotent_witness:
  "fst (validateNetworkInterfaces 5 discoveredHost) = True
   \<and> validateNetworkInterfaces 9 (snd (validateNetworkInterfaces 5 discoveredHost))
       = (False, snd (validateNetworkInterfaces 5 discoveredHost))
   \<and> setNetworkInterfaceValidation 9 (discoveredHost\<lparr>bmh_Conditions := [validCondition]\<rparr>)
         ConditionTrue ''AllInterfacesValid'' ''again''
       = (False, discoveredHost\<lparr>bmh_Conditions := [validCondition]\<rparr>)
   \<and> clearNetworkInterfaceValidation discoveredHost = (False, discoveredHost)"
proof -
  have "fst (validateNetworkInterfaces 5 discoveredHost) = True"
    by (simp add: validateNetworkInterfaces_def discoveredHost_def exampleHost_def
          exampleInterface_def len_def elems_def isHardwareDiscoveryComplete_def
          performNetworkInterfaceValidation_def availableNICs_def GetKey_def
          setNetworkInterfaceValidation_def Let_def)
  moreover have "setNetworkInterfaceValidation 9 (discoveredHost\<lparr>bmh_Conditions := [validCondition]\<rparr>)
         ConditionTrue ''AllInterfacesValid'' ''again''
       = (False, discoveredHost\<lparr>bmh_Conditions := [validCondition]\<rparr>)"
    using validateNetworkInterfaces_idempotent
      [of 9 9 "discoveredHost\<lparr>bmh_Conditions := [validCondition]\<rparr>" ConditionTrue
          "''AllInterfacesValid''" "''again''"]
    by (simp add: validCondition_def ConditionNetworkInterfacesValid_def)
  moreover have "clearNetworkInterfaceValidation discoveredHost = (False, discoveredHost)"
    using validateNetworkInterfaces_idempotent [of 9 9 discoveredHost]
    by (simp add: discoveredHost_def exampleHost_def)
  ultimately show ?thesis
    using validateNetworkInterfaces_idempotent [of 9 5 discoveredHost] by simp
qed

section \<open>The reference guard\<close>







section \<open>Port reconciliation collects failures\<close>

lemma failuresOf_Cons:
  "failuresOf ((nic, outcome) # outcomes) =
     (case outcome of None \<Rightarrow> [] | Some err \<Rightarrow> [failureText nic err]) @ failuresOf outcomes"
  by (simp add: failuresOf_def)

lemma ensureLoop_refines:
  "ensureEveryNIC_spec ops p nodeUUID byMAC nics st = (outcomes, st') \<Longrightarrow>
     ensureLoop ops p nodeUUID byMAC nics st failures successCount =
       (failures @ failuresOf outcomes, successCount + successesOf outcomes, st')"
proof (induction nics arbitrary: st failures successCount outcomes st')
  case Nil
  then show ?case by (simp add: failuresOf_def successesOf_def)
next
  case (Cons nic nics)
  show ?case
  proof (cases "nic_MAC nic = []")
    case True
    then show ?thesis using Cons by simp
  next
    case False
    obtain outcome st1 where step:
      "op_ensurePort ops st nodeUUID nic
         (nic_PXE nic \<or> EqualFold (nic_MAC nic) (p_bootMACAddress p))
         (switchConfigFor p nic) (byMAC (ToLower (nic_MAC nic))) = (outcome, st1)"
      by (cases "op_ensurePort ops st nodeUUID nic
         (nic_PXE nic \<or> EqualFold (nic_MAC nic) (p_bootMACAddress p))
         (switchConfigFor p nic) (byMAC (ToLower (nic_MAC nic)))") auto
    obtain rest st2 where rest: "ensureEveryNIC_spec ops p nodeUUID byMAC nics st1 = (rest, st2)"
      by (cases "ensureEveryNIC_spec ops p nodeUUID byMAC nics st1") auto
    have out: "outcomes = (nic, outcome) # rest" "st' = st2"
      using Cons.prems False step rest by auto
    show ?thesis
    proof (cases outcome)
      case None
      then show ?thesis
        using False step out Cons.IH[OF rest]
        by (simp add: Let_def failuresOf_Cons successesOf_def)
    next
      case (Some err)
      then show ?thesis
        using False step out Cons.IH[OF rest]
        by (simp add: Let_def failuresOf_Cons successesOf_def)
    qed
  qed
qed

lemma ensureEveryNIC_spec_all:
  "ensureEveryNIC_spec ops p nodeUUID byMAC nics st = (outcomes, st') \<Longrightarrow>
     map fst outcomes = filter (\<lambda>nic. nic_MAC nic \<noteq> []) nics"
proof (induction nics arbitrary: st outcomes st')
  case Nil
  then show ?case by simp
next
  case (Cons nic nics)
  show ?case
  proof (cases "nic_MAC nic = []")
    case True
    then show ?thesis using Cons by simp
  next
    case False
    then show ?thesis using Cons.prems Cons.IH
      by (auto split: prod.splits)
  qed
qed

text \<open>
  Claim C7. With stored hardware details and a port list that could be read, \<open>ensurePorts\<close>
  runs the per-NIC operation once for every deduplicated NIC that has a MAC address, in
  order, also after failures: its loop computes what \<open>ensureEveryNIC_spec\<close> computes. It
  returns \<open>nil\<close> when no operation failed; otherwise it returns one error that gives the
  number of failures, the number of deduplicated NICs and the first three failures, each as
  \<open>interface(MAC): cause\<close>, joined by semicolons.
\<close>

theorem ensurePorts_aggregates_failures:
  assumes "p_storedHardwareDetails p = Some nics"
    and "op_listNodePorts ops st nodeUUID = Inr existingPorts"
    and "ensureEveryNIC_spec ops p nodeUUID (portsByMAC existingPorts)
           (op_deduplicateNICsByMAC ops (elems nics)) st = (outcomes, st')"
  shows "map fst outcomes =
           filter (\<lambda>nic. nic_MAC nic \<noteq> []) (op_deduplicateNICsByMAC ops (elems nics))
     \<and> (failuresOf outcomes = [] \<longrightarrow> ensurePorts ops p st nodeUUID = (None, st'))
     \<and> (failuresOf outcomes \<noteq> [] \<longrightarrow>
          ensurePorts ops p st nodeUUID =
            (Some (''failed to ensure '' @ show_int (int (length (failuresOf outcomes))) @ ''/''
                     @ show_int (int (length (op_deduplicateNICsByMAC ops (elems nics))))
                     @ '' ports: '' @ join (take 3 (failuresOf outcomes)) ''; ''),
             st'))"
  using assms ensureEveryNIC_spec_all[OF assms(3)]
    ensureLoop_refines[OF assms(3), of "[]" 0]
  by (simp add: ensurePorts_def Let_def)

theorem ensurePorts_aggregates_failures_witness:
  "ensurePorts exampleOps exampleProvisioner [] ''node-1'' =
     (Some (''failed to ensure 4/5 ports: eth1(aa:bb:cc:dd:ee:01): conflict; ''
              @ ''eth2(aa:bb:cc:dd:ee:02): conflict; eth3(aa:bb:cc:dd:ee:03): conflict''),
      [''eth0'', ''eth1'', ''eth2'', ''eth3'', ''eth4''])
   \<and> ensurePorts
         (exampleOps\<lparr>op_ensurePort := (\<lambda>st nodeUUID nic isPXEPort switchConfig existingPort.
            (None, st @ [nic_Name nic]))\<rparr>)
         exampleProvisioner [] ''node-1'' =
       (None, [''eth0'', ''eth1'', ''eth2'', ''eth3'', ''eth4''])"
proof -
  have dedup: "op_deduplicateNICsByMAC exampleOps (elems (Some exampleNICs)) =
     [\<lparr>nic_Name = ''eth0'', nic_MAC = ''AA:BB:CC:DD:EE:00'', nic_PXE = True\<rparr>,
      \<lparr>nic_Name = ''eth1'', nic_MAC = ''aa:bb:cc:dd:ee:01'', nic_PXE = False\<rparr>,
      \<lparr>nic_Name = ''eth2'', nic_MAC = ''aa:bb:cc:dd:ee:02'', nic_PXE = False\<rparr>,
      \<lparr>nic_Name = ''eth3'', nic_MAC = ''aa:bb:cc:dd:ee:03'', nic_PXE = False\<rparr>,
      \<lparr>nic_Name = ''eth4'', nic_MAC = ''aa:bb:cc:dd:ee:04'', nic_PXE = False\<rparr>]"
    by code_simp
  have hw: "p_storedHardwareDetails exampleProvisioner = Some (Some exampleNICs)"
    by (simp add: exampleProvisioner_def)
  have ls: "op_listNodePorts exampleOps [] ''node-1'' = Inr []"
    by (simp add: exampleOps_def)
  have spec: "ensureEveryNIC_spec exampleOps exampleProvisioner ''node-1'' (portsByMAC [])
        (op_deduplicateNICsByMAC exampleOps (elems (Some exampleNICs))) [] =
     ([(\<lparr>nic_Name = ''eth0'', nic_MAC = ''AA:BB:CC:DD:EE:00'', nic_PXE = True\<rparr>, None),
       (\<lparr>nic_Name = ''eth1'', nic_MAC = ''aa:bb:cc:dd:ee:01'', nic_PXE = False\<rparr>, Some ''conflict''),
       (\<lparr>nic_Name = ''eth2'', nic_MAC = ''aa:bb:cc:dd:ee:02'', nic_PXE = False\<rparr>, Some ''conflict''),
       (\<lparr>nic_Name = ''eth3'', nic_MAC = ''aa:bb:cc:dd:ee:03'', nic_PXE = False\<rparr>, Some ''conflict''),
       (\<lparr>nic_Name = ''eth4'', nic_MAC = ''aa:bb:cc:dd:ee:04'', nic_PXE = False\<rparr>, Some ''conflict'')],
      [''eth0'', ''eth1'', ''eth2'', ''eth3'', ''eth4''])"
    by code_simp
  let ?ok = "exampleOps\<lparr>op_ensurePort := (\<lambda>st nodeUUID nic isPXEPort switchConfig existingPort.
            (None, st @ [nic_Name nic]))\<rparr>"
  have ls': "op_listNodePorts ?ok [] ''node-1'' = Inr []"
    by (simp add: exampleOps_def)
  have spec': "ensureEveryNIC_spec ?ok exampleProvisioner ''node-1'' (portsByMAC [])
        (op_deduplicateNICsByMAC ?ok (elems (Some exampleNICs))) [] =
     ([(\<lparr>nic_Name = ''eth0'', nic_MAC = ''AA:BB:CC:DD:EE:00'', nic_PXE = True\<rparr>, None),
       (\<lparr>nic_Name = ''eth1'', nic_MAC = ''aa:bb:cc:dd:ee:01'', nic_PXE = False\<rparr>, None),
       (\<lparr>nic_Name = ''eth2'', nic_MAC = ''aa:bb:cc:dd:ee:02'', nic_PXE = False\<rparr>, None),
       (\<lparr>nic_Name = ''eth3'', nic_MAC = ''aa:bb:cc:dd:ee:03'', nic_PXE = False\<rparr>, None),
       (\<lparr>nic_Name = ''eth4'', nic_MAC = ''aa:bb:cc:dd:ee:04'', nic_PXE = False\<rparr>, None)],
      [''eth0'', ''eth1'', ''eth2'', ''eth3'', ''eth4''])"
    by code_simp
  have first: "ensurePorts exampleOps exampleProvisioner [] ''node-1'' =
     (Some (''failed to ensure 4/5 ports: eth1(aa:bb:cc:dd:ee:01): conflict; ''
              @ ''eth2(aa:bb:cc:dd:ee:02): conflict; eth3(aa:bb:cc:dd:ee:03): conflict''),
      [''eth0'', ''eth1'', ''eth2'', ''eth3'', ''eth4''])"
    using ensurePorts_aggregates_failures [OF hw ls spec] dedup
    by (simp add: failuresOf_def failureText_def show_int_def decimal.simps digit_char_def)
  have second: "ensurePorts ?ok exampleProvisioner [] ''node-1'' =
       (None, [''eth0'', ''eth1'', ''eth2'', ''eth3'', ''eth4''])"
    using ensurePorts_aggregates_failures [OF hw ls' spec']
    by (simp add: failuresOf_def)
  show ?thesis using first second by simp
qed

section \<open>The published switch configuration\<close>

lemma writeSwitchEntry_shape:
  "writeSwitchEntry pathJoin c sw credentialsPath configEntries keyFiles = Inr (ce, kf) \<Longrightarrow>
     ce = fmupd (sw_Name sw) (switchSection pathJoin c sw credentialsPath) configEntries"
  unfolding switchSection_def writeSwitchEntry_def Let_def
  by (auto split: sum.splits option.splits if_splits)

lemma generateLoop_entries:
  "generateLoop pathJoin c credentialsPath items configEntries keyFiles = Inr (ce, kf) \<Longrightarrow>
     ce = foldl (storeSection pathJoin c credentialsPath) configEntries items"
proof (induction items arbitrary: configEntries keyFiles)
  case Nil
  then show ?case by simp
next
  case (Cons sw items)
  from Cons.prems obtain ce1 kf1 where
    w: "writeSwitchEntry pathJoin c sw credentialsPath configEntries keyFiles = Inr (ce1, kf1)"
    and g: "generateLoop pathJoin c credentialsPath items ce1 kf1 = Inr (ce, kf)"
    by (auto split: sum.splits)
  have "ce1 = storeSection pathJoin c credentialsPath configEntries sw"
    using writeSwitchEntry_shape[OF w] by (simp add: storeSection_def)
  then show ?case using Cons.IH[OF g] by simp
qed

lemma foldl_storeSection_lookup:
  "distinct (map sw_Name items) \<Longrightarrow>
     (\<forall>sw\<in>set items. fmlookup (foldl (storeSection pathJoin c credentialsPath) m items) (sw_Name sw)
          = Some (switchSection pathJoin c sw credentialsPath))
     \<and> (\<forall>k. k \<notin> sw_Name ` set items \<longrightarrow>
          fmlookup (foldl (storeSection pathJoin c credentialsPath) m items) k = fmlookup m k)"
proof (induction items arbitrary: m)
  case Nil
  then show ?case by simp
next
  case (Cons x xs)
  let ?m = "storeSection pathJoin c credentialsPath m x"
  have d: "distinct (map sw_Name xs)" and nx: "sw_Name x \<notin> sw_Name ` set xs"
    using Cons.prems by auto
  note IH = Cons.IH[OF d, of ?m]
  have "fmlookup (foldl (storeSection pathJoin c credentialsPath) ?m xs) (sw_Name x)
          = fmlookup ?m (sw_Name x)"
    using IH nx by blast
  then have x: "fmlookup (foldl (storeSection pathJoin c credentialsPath) m (x # xs)) (sw_Name x)
          = Some (switchSection pathJoin c x credentialsPath)"
    by (simp add: storeSection_def)
  have rest: "\<forall>sw\<in>set xs. fmlookup (foldl (storeSection pathJoin c credentialsPath) m (x # xs)) (sw_Name sw)
          = Some (switchSection pathJoin c sw credentialsPath)"
    using IH by simp
  have other: "\<forall>k. k \<notin> sw_Name ` set (x # xs) \<longrightarrow>
          fmlookup (foldl (storeSection pathJoin c credentialsPath) m (x # xs)) k = fmlookup m k"
  proof (intro allI impI)
    fix k assume k: "k \<notin> sw_Name ` set (x # xs)"
    then have "fmlookup (foldl (storeSection pathJoin c credentialsPath) ?m xs) k = fmlookup ?m k"
      using IH by auto
    moreover have "k \<noteq> sw_Name x" using k by auto
    ultimately show "fmlookup (foldl (storeSection pathJoin c credentialsPath) m (x # xs)) k = fmlookup m k"
      by (simp add: storeSection_def)
  qed
  show ?case using x rest other by auto
qed

lemma sort_names:
  assumes "distinct (map sw_Name items)"
  shows "sort (map sw_Name items) = map sw_Name (sort_key sw_Name items)"
proof (rule sorted_distinct_set_unique)
  show "sorted (sort (map sw_Name items))" by simp
  show "distinct (sort (map sw_Name items))" using assms by simp
  show "sorted (map sw_Name (sort_key sw_Name items))" by simp
  have "inj_on sw_Name (set items)" "distinct items"
    using assms by (auto simp: distinct_map)
  then show "distinct (map sw_Name (sort_key sw_Name items))"
    by (simp add: distinct_map)
  show "set (sort (map sw_Name items)) = set (map sw_Name (sort_key sw_Name items))" by simp
qed

lemma assembleConfig_fold:
  assumes "distinct (map sw_Name items)"
  shows "assembleConfig (foldl (storeSection pathJoin c credentialsPath) fmempty items) =
     banner @ concat (map (\<lambda>sw. switchSection pathJoin c sw credentialsPath)
                        (sort_key sw_Name items))"
proof -
  let ?ce = "foldl (storeSection pathJoin c credentialsPath) fmempty items"
  note look = foldl_storeSection_lookup[OF assms, of pathJoin c credentialsPath fmempty]
  have dom: "fset (fmdom ?ce) = set (map sw_Name items)"
  proof (rule set_eqI)
    fix k
    show "k \<in> fset (fmdom ?ce) \<longleftrightarrow> k \<in> set (map sw_Name items)"
    proof (cases "k \<in> sw_Name ` set items")
      case True
      then obtain sw where "sw \<in> set items" "k = sw_Name sw" by auto
      then have "fmlookup ?ce k \<noteq> None" using look by auto
      then show ?thesis using True by (auto simp: fmlookup_dom_iff)
    next
      case False
      then have "fmlookup ?ce k = None" using look by auto
      then show ?thesis using False by (auto simp: fmlookup_dom_iff)
    qed
  qed
  have "sorted_list_of_fset (fmdom ?ce) = sorted_list_of_set (set (map sw_Name items))"
    using dom by (simp add: sorted_list_of_fset.rep_eq)
  also have "\<dots> = sort (remdups (map sw_Name items))"
    by (rule sorted_list_of_set_sort_remdups)
  also have "\<dots> = sort (map sw_Name items)"
    using assms by (simp only: distinct_remdups_id)
  also have "\<dots> = map sw_Name (sort_key sw_Name items)" by (rule sort_names[OF assms])
  finally have names: "sorted_list_of_fset (fmdom ?ce) = map sw_Name (sort_key sw_Name items)" .
  have each: "\<And>sw. sw \<in> set (sort_key sw_Name items) \<Longrightarrow>
      (case fmlookup ?ce (sw_Name sw) of None \<Rightarrow> [] | Some section \<Rightarrow> section)
        = switchSection pathJoin c sw credentialsPath"
    using look by simp
  have m: "map (\<lambda>name. case fmlookup ?ce name of None \<Rightarrow> [] | Some section \<Rightarrow> section)
          (map sw_Name (sort_key sw_Name items))
        = map (\<lambda>sw. switchSection pathJoin c sw credentialsPath) (sort_key sw_Name items)"
    unfolding map_map comp_def by (rule map_cong[OF refl]) (rule each)
  show ?thesis unfolding assembleConfig_def Let_def names m ..
qed

lemma sort_key_order_independent:
  assumes "distinct (map f xs)" and "distinct (map f ys)" and "set ys = set xs"
  shows "sort_key f ys = sort_key f (xs :: 'a list)"
proof -
  have inj: "inj_on f (set xs)" using assms(1) by (simp add: distinct_map)
  have "map f (sort_key f ys) = map f (sort_key f xs)"
  proof (rule sorted_distinct_set_unique)
    show "sorted (map f (sort_key f ys))" "sorted (map f (sort_key f xs))" by simp_all
    show "distinct (map f (sort_key f ys))" using assms(2) by (simp add: distinct_map)
    show "distinct (map f (sort_key f xs))" using assms(1) by (simp add: distinct_map)
    show "set (map f (sort_key f ys)) = set (map f (sort_key f xs))" using assms(3) by simp
  qed
  moreover have "inj_on f (set (sort_key f ys) \<union> set (sort_key f xs))"
    using inj assms(3) by simp
  ultimately show ?thesis by (simp add: inj_on_map_eq_map)
qed

lemma updateSecretData_success:
  assumes "updateSecretData c namespace secretName newData = (None, c')"
  shows "(\<exists>stored. sc_secrets c' (namespace, secretName) = Some stored
            \<and> entries (secret_Data stored) = entries newData)
     \<and> (\<forall>key. key \<noteq> (namespace, secretName) \<longrightarrow> sc_secrets c' key = sc_secrets c key)"
proof -
  from assms obtain secret where g: "Get_secret c namespace secretName = Inr secret"
    by (auto simp: updateSecretData_def split: sum.splits)
  then have stored: "sc_secrets c (namespace, secretName) = Some secret"
    by (auto simp: Get_secret_def split: option.splits)
  show ?thesis
  proof (cases "secretDataEqual (secret_Data secret) newData")
    case True
    then have "c' = c" using assms g by (simp add: updateSecretData_def)
    moreover have "entries (secret_Data secret) = entries newData"
      using True by (auto simp: secretDataEqual_iff intro: fmap_ext)
    ultimately show ?thesis using stored by simp
  next
    case False
    then show ?thesis using assms g
      by (auto simp: updateSecretData_def Update_secret_def Let_def split: option.splits)
  qed
qed

text \<open>
  Claim C5. When publishing succeeds for a namespace whose switches have distinct names (and
  the two secrets are different objects), the stored \<open>switch-configs.conf\<close> is the banner
  line and a blank line followed by the sections of the switches in increasing order of
  their names, bytewise; with no switch it is the banner and the blank line alone. The
  order in which the switches are listed does not matter: any listing of the same switches
  sorts to the same sequence, so equal inputs give equal bytes.
\<close>

theorem published_config_sorted_sections:
  assumes "updateSwitchConfigSecret pathJoin c namespace configSecretName credentialSecretName
             credentialPath = (None, c')"
    and "configSecretName \<noteq> credentialSecretName"
    and "distinct (map sw_Name (filter (\<lambda>sw. sw_Namespace sw = namespace) (sc_switches c)))"
  shows "(\<exists>stored. sc_secrets c' (namespace, configSecretName) = Some stored
     \<and> entries (secret_Data stored) =
         fmupd switchConfigKey
           (banner @ concat (map (\<lambda>sw. switchSection pathJoin c sw credentialPath)
              (sort_key sw_Name (filter (\<lambda>sw. sw_Namespace sw = namespace) (sc_switches c)))))
           fmempty)
     \<and> (\<forall>items. set items = set (filter (\<lambda>sw. sw_Namespace sw = namespace) (sc_switches c))
            \<and> distinct (map sw_Name items)
          \<longrightarrow> sort_key sw_Name items =
                sort_key sw_Name (filter (\<lambda>sw. sw_Namespace sw = namespace) (sc_switches c)))"
proof -
  let ?items = "filter (\<lambda>sw. sw_Namespace sw = namespace) (sc_switches c)"
  from assms(1) obtain ce kf where
    gen: "generateSwitchConfig pathJoin c namespace credentialPath = Inr (ce, kf)"
    by (auto simp: updateSwitchConfigSecret_def split: sum.splits)
  then have loop: "generateLoop pathJoin c credentialPath ?items fmempty fmempty = Inr (ce, kf)"
    by (auto simp: generateSwitchConfig_def List_switches_def split: sum.splits option.splits)
  have ce: "ce = foldl (storeSection pathJoin c credentialPath) fmempty ?items"
    using generateLoop_entries[OF loop] .
  let ?published = "banner @ concat (map (\<lambda>sw. switchSection pathJoin c sw credentialPath)
                  (sort_key sw_Name ?items))"
  have asm: "assembleConfig ce = ?published"
    unfolding ce by (rule assembleConfig_fold[OF assms(3)])
  from assms(1) gen obtain c1 where
    u1: "updateSecretData c namespace configSecretName
           (Some (fmupd switchConfigKey (assembleConfig ce) fmempty)) = (None, c1)"
    and u2: "updateSecretData c1 namespace credentialSecretName (Some kf) = (None, c')"
    by (auto simp: updateSwitchConfigSecret_def split: sum.splits prod.splits option.splits)
  from updateSecretData_success[OF u1] obtain stored where
    s1: "sc_secrets c1 (namespace, configSecretName) = Some stored"
      "entries (secret_Data stored) = entries (Some (fmupd switchConfigKey (assembleConfig ce) fmempty))"
    by blast
  have "sc_secrets c' (namespace, configSecretName) = sc_secrets c1 (namespace, configSecretName)"
    using updateSecretData_success[OF u2] assms(2) by simp
  then have stored: "\<exists>stored. sc_secrets c' (namespace, configSecretName) = Some stored
     \<and> entries (secret_Data stored) = fmupd switchConfigKey ?published fmempty"
    using s1 asm by (simp add: entries_def)
  have "\<forall>items. set items = set ?items \<and> distinct (map sw_Name items)
          \<longrightarrow> sort_key sw_Name items = sort_key sw_Name ?items"
    using sort_key_order_independent[OF assms(3)] by blast
  then show ?thesis using stored by blast
qed

theorem published_config_sorted_sections_witness:
  "(\<exists>stored.
      sc_secrets (snd (updateSwitchConfigSecret slashJoin publishClient ''test-ns'' ''switch-configs''
             ''switch-credentials'' ''/etc/creds''))
        (''test-ns'', ''switch-configs'') = Some stored
      \<and> entries (secret_Data stored) =
          fmupd switchConfigKey
            (banner @ (''[switch:leaf-a]'' @ nl @ ''address=192.168.1.2'' @ nl
             @ ''mac_address=00:00:5e:00:53:02'' @ nl @ ''port=22'' @ nl
             @ ''driver_type=generic-switch'' @ nl @ ''device_type=cisco_ios'' @ nl
             @ ''username=admin'' @ nl @ ''password=secret123'' @ nl @ nl)
             @ (''[switch:switch1]'' @ nl @ ''address=192.168.1.1'' @ nl
             @ ''mac_address=00:00:5e:00:53:01'' @ nl @ ''driver_type=generic-switch'' @ nl
             @ ''device_type=cisco_ios'' @ nl @ ''username=admin'' @ nl
             @ ''password=secret123'' @ nl @ nl))
            fmempty)
   \<and> (\<exists>stored.
      sc_secrets (snd (updateSwitchConfigSecret slashJoin (publishClient\<lparr>sc_switches := []\<rparr>) ''test-ns'' ''switch-configs''
             ''switch-credentials'' ''/etc/creds''))
        (''test-ns'', ''switch-configs'') = Some stored
      \<and> entries (secret_Data stored) = fmupd switchConfigKey banner fmempty)"
proof -
  have ne: "''switch-configs'' \<noteq> ''switch-credentials''" by simp
  have run: "fst (updateSwitchConfigSecret slashJoin publishClient ''test-ns'' ''switch-configs''
             ''switch-credentials'' ''/etc/creds'') = None"
    by code_simp
  then obtain c' where r: "updateSwitchConfigSecret slashJoin publishClient ''test-ns'' ''switch-configs''
             ''switch-credentials'' ''/etc/creds'' = (None, c')"
    by (metis prod.collapse)
  have items: "filter (\<lambda>sw. sw_Namespace sw = ''test-ns'') (sc_switches publishClient)
      = [switch1, leafA]"
    by (simp add: publishClient_def switch1Client_def switch1_def leafA_def)
  have names: "distinct (map sw_Name
      (filter (\<lambda>sw. sw_Namespace sw = ''test-ns'') (sc_switches publishClient)))"
    unfolding items by (simp add: switch1_def leafA_def)
  have order: "sort_key sw_Name [switch1, leafA] = [leafA, switch1]"
    by code_simp
  have leaf: "switchSection slashJoin publishClient leafA ''/etc/creds'' =
      ''[switch:leaf-a]'' @ nl @ ''address=192.168.1.2'' @ nl
             @ ''mac_address=00:00:5e:00:53:02'' @ nl @ ''port=22'' @ nl
             @ ''driver_type=generic-switch'' @ nl @ ''device_type=cisco_ios'' @ nl
             @ ''username=admin'' @ nl @ ''password=secret123'' @ nl @ nl"
    by code_simp
  have sw1: "switchSection slashJoin publishClient switch1 ''/etc/creds'' =
      ''[switch:switch1]'' @ nl @ ''address=192.168.1.1'' @ nl
             @ ''mac_address=00:00:5e:00:53:01'' @ nl @ ''driver_type=generic-switch'' @ nl
             @ ''device_type=cisco_ios'' @ nl @ ''username=admin'' @ nl
             @ ''password=secret123'' @ nl @ nl"
    by code_simp
  have sections: "concat (map (\<lambda>sw. switchSection slashJoin publishClient sw ''/etc/creds'')
        (sort_key sw_Name (filter (\<lambda>sw. sw_Namespace sw = ''test-ns'') (sc_switches publishClient))))
      = (''[switch:leaf-a]'' @ nl @ ''address=192.168.1.2'' @ nl
             @ ''mac_address=00:00:5e:00:53:02'' @ nl @ ''port=22'' @ nl
             @ ''driver_type=generic-switch'' @ nl @ ''device_type=cisco_ios'' @ nl
             @ ''username=admin'' @ nl @ ''password=secret123'' @ nl @ nl)
        @ (''[switch:switch1]'' @ nl @ ''address=192.168.1.1'' @ nl
             @ ''mac_address=00:00:5e:00:53:01'' @ nl @ ''driver_type=generic-switch'' @ nl
             @ ''device_type=cisco_ios'' @ nl @ ''username=admin'' @ nl
             @ ''password=secret123'' @ nl @ nl)"
    unfolding items order by (simp only: list.map concat.simps leaf sw1 append_Nil2)
  have first: "\<exists>stored.
      sc_secrets (snd (updateSwitchConfigSecret slashJoin publishClient ''test-ns'' ''switch-configs''
             ''switch-credentials'' ''/etc/creds''))
        (''test-ns'', ''switch-configs'') = Some stored
      \<and> entries (secret_Data stored) =
          fmupd switchConfigKey
            (banner @ (''[switch:leaf-a]'' @ nl @ ''address=192.168.1.2'' @ nl
             @ ''mac_address=00:00:5e:00:53:02'' @ nl @ ''port=22'' @ nl
             @ ''driver_type=generic-switch'' @ nl @ ''device_type=cisco_ios'' @ nl
             @ ''username=admin'' @ nl @ ''password=secret123'' @ nl @ nl)
             @ (''[switch:switch1]'' @ nl @ ''address=192.168.1.1'' @ nl
             @ ''mac_address=00:00:5e:00:53:01'' @ nl @ ''driver_type=generic-switch'' @ nl
             @ ''device_type=cisco_ios'' @ nl @ ''username=admin'' @ nl
             @ ''password=secret123'' @ nl @ nl))
            fmempty"
    using published_config_sorted_sections [OF r ne names, THEN conjunct1]
    unfolding sections r snd_conv .
  have run0: "fst (updateSwitchConfigSecret slashJoin (publishClient\<lparr>sc_switches := []\<rparr>) ''test-ns'' ''switch-configs''
             ''switch-credentials'' ''/etc/creds'') = None"
    by code_simp
  then obtain c0 where r0: "updateSwitchConfigSecret slashJoin (publishClient\<lparr>sc_switches := []\<rparr>) ''test-ns'' ''switch-configs''
             ''switch-credentials'' ''/etc/creds'' = (None, c0)"
    by (metis prod.collapse)
  have names0: "distinct (map sw_Name
      (filter (\<lambda>sw. sw_Namespace sw = ''test-ns'')
         (sc_switches (publishClient\<lparr>sc_switches := []\<rparr>))))"
    by simp
  have second: "\<exists>stored.
      sc_secrets (snd (updateSwitchConfigSecret slashJoin (publishClient\<lparr>sc_switches := []\<rparr>) ''test-ns'' ''switch-configs''
             ''switch-credentials'' ''/etc/creds''))
        (''test-ns'', ''switch-configs'') = Some stored
      \<and> entries (secret_Data stored) = fmupd switchConfigKey banner fmempty"
    using published_config_sorted_sections [OF r0 ne names0, THEN conjunct1]
    unfolding r0 snd_conv by simp
  show ?thesis using first second by blast
qed

end
